theory Spec2Isabelle
  imports Complex_Main "HOL-Library.Multiset"
begin

section \<open>Python values used by the digest use-case\<close>

text \<open>
  A Python \<open>str\<close> is a sequence of Unicode code points; it is modelled as the list of
  those code points. \<open>str\<close> turns an ASCII literal into such a list.
\<close>

type_synonym pystr = "nat list"

definition str :: "string \<Rightarrow> pystr" where
  "str cs = map of_char cs"

text \<open>The code points for which Python's \<open>str.isspace\<close> holds.\<close>

definition isspace :: "nat \<Rightarrow> bool" where
  "isspace c = ((9 \<le> c \<and> c \<le> 13) \<or> (28 \<le> c \<and> c \<le> 32) \<or> c = 133 \<or> c = 160 \<or> c = 5760
      \<or> (8192 \<le> c \<and> c \<le> 8202) \<or> c = 8232 \<or> c = 8233 \<or> c = 8239 \<or> c = 8287 \<or> c = 12288)"

definition py_strip :: "pystr \<Rightarrow> pystr" where
  "py_strip s = rev (dropWhile isspace (rev (dropWhile isspace s)))"

text \<open>
  \<open>str.lower\<close>, exact on ASCII. The program compares the lowered text only with
  \<open>player\<close> and \<open>team\<close>, and no code point beyond ASCII lowers to one of their letters,
  so leaving the other code points as they are does not change any comparison.
\<close>

definition py_lower :: "pystr \<Rightarrow> pystr" where
  "py_lower s = map (\<lambda>c. if 65 \<le> c \<and> c \<le> 90 then c + 32 else c) s"

fun py_join :: "pystr \<Rightarrow> pystr list \<Rightarrow> pystr" where
  "py_join sep [] = []"
| "py_join sep [x] = x"
| "py_join sep (x # y # ys) = x @ sep @ py_join sep (y # ys)"

text \<open>Decimal digits of a natural number, and \<open>%0wd\<close> formatting of one.\<close>

fun decimal :: "nat \<Rightarrow> pystr" where
  "decimal n = (if n < 10 then [48 + n] else decimal (n div 10) @ [48 + n mod 10])"

declare decimal.simps [simp del]

definition zero_pad :: "nat \<Rightarrow> nat \<Rightarrow> pystr" where
  "zero_pad w n = replicate (w - length (decimal n)) 48 @ decimal n"

datatype pyerror = ZoneInfoNotFoundError | ValueError | OverflowError

definition bindE :: "'e + 'a \<Rightarrow> ('a \<Rightarrow> 'e + 'b) \<Rightarrow> 'e + 'b" where
  "bindE r f = (case r of Inl e \<Rightarrow> Inl e | Inr v \<Rightarrow> f v)"

section \<open>Dates, datetimes and time zones\<close>

text \<open>
  A \<open>date\<close> is its proleptic Gregorian ordinal (\<open>date.toordinal\<close>, 1 for 0001-01-01).
  A \<open>datetime\<close> is the number of microseconds of its wall-clock fields since
  0001-01-01T00:00:00, its \<open>fold\<close> flag and its optional \<open>tzinfo\<close>. The library accepts
  ordinals from 1 to 3652059 and raises \<open>OverflowError\<close> when arithmetic leaves them.
\<close>

type_synonym pydate = int

datatype tzinfo = FixedTz int | ZoneTz pystr

record pydatetime =
  dt_us :: int
  dt_fold :: bool
  dt_tzinfo :: "tzinfo option"

definition US_PER_HOUR :: int where
  "US_PER_HOUR = 3600000000"

definition US_PER_DAY :: int where
  "US_PER_DAY = 86400000000"

definition MAXORDINAL :: int where
  "MAXORDINAL = 3652059"

definition timezone_utc :: tzinfo where
  "timezone_utc = FixedTz 0"

text \<open>
  What \<open>zoneinfo.ZoneInfo\<close> reads from the time zone database is not part of the
  repository: a zone is given by the offset it reports for a wall-clock time and fold
  (\<open>utcoffset\<close>) and by the offset and fold it assigns to a UTC time (\<open>fromutc\<close>), all in
  microseconds. The database maps a key to its zone; two \<open>ZoneInfo\<close> objects of one key
  are the same object.
\<close>

record zone =
  z_utcoffset :: "int \<Rightarrow> bool \<Rightarrow> int"
  z_fromutc_offset :: "int \<Rightarrow> int"
  z_fromutc_fold :: "int \<Rightarrow> bool"

type_synonym tzdb = "pystr \<Rightarrow> zone option"

definition ZoneInfo :: "tzdb \<Rightarrow> pystr \<Rightarrow> pyerror + tzinfo" where
  "ZoneInfo db key = (case db key of None \<Rightarrow> Inl ZoneInfoNotFoundError | Some z \<Rightarrow> Inr (ZoneTz key))"

text \<open>\<open>datetime + timedelta\<close>: wall-clock arithmetic; the result has \<open>fold = 0\<close>.\<close>

definition dt_add :: "pydatetime \<Rightarrow> int \<Rightarrow> pyerror + pydatetime" where
  "dt_add dt delta =
     (let us = dt_us dt + delta in
      if 0 \<le> us \<and> us < MAXORDINAL * US_PER_DAY
      then Inr (dt\<lparr>dt_us := us, dt_fold := False\<rparr>)
      else Inl OverflowError)"

definition utcoffset :: "tzdb \<Rightarrow> tzinfo \<Rightarrow> pydatetime \<Rightarrow> pyerror + int" where
  "utcoffset db tz dt =
     (case tz of
        FixedTz off \<Rightarrow> Inr off
      | ZoneTz key \<Rightarrow>
          (case db key of
             None \<Rightarrow> Inl ZoneInfoNotFoundError
           | Some z \<Rightarrow> Inr (z_utcoffset z (dt_us dt) (dt_fold dt))))"

definition fromutc :: "tzdb \<Rightarrow> tzinfo \<Rightarrow> pydatetime \<Rightarrow> pyerror + pydatetime" where
  "fromutc db tz utc =
     (case tz of
        FixedTz off \<Rightarrow> dt_add utc off
      | ZoneTz key \<Rightarrow>
          (case db key of
             None \<Rightarrow> Inl ZoneInfoNotFoundError
           | Some z \<Rightarrow>
               bindE (dt_add utc (z_fromutc_offset z (dt_us utc)))
                 (\<lambda>loc. Inr (loc\<lparr>dt_fold := z_fromutc_fold z (dt_us utc)\<rparr>))))"

text \<open>
  \<open>datetime.astimezone(tz)\<close> of an aware datetime whose \<open>tzinfo\<close> is \<open>mytz\<close>: the
  datetime itself when \<open>tz\<close> is its own zone, otherwise its wall clock minus its offset,
  handed to \<open>tz.fromutc\<close>.
\<close>

definition astimezone :: "tzdb \<Rightarrow> tzinfo \<Rightarrow> pydatetime \<Rightarrow> tzinfo \<Rightarrow> pyerror + pydatetime" where
  "astimezone db mytz dt tz =
     bindE (utcoffset db mytz dt) (\<lambda>myoffset.
       if tz = mytz then Inr dt
       else bindE (dt_add dt (- myoffset)) (\<lambda>utc.
         fromutc db tz (utc\<lparr>dt_tzinfo := Some tz\<rparr>)))"

text \<open>\<open>dt.replace(hour=h, minute=0, second=0, microsecond=0)\<close>: date, zone and fold stay.\<close>

definition replace_time :: "pydatetime \<Rightarrow> int \<Rightarrow> pyerror + pydatetime" where
  "replace_time dt h =
     (if 0 \<le> h \<and> h \<le> 23
      then Inr (dt\<lparr>dt_us := (dt_us dt div US_PER_DAY) * US_PER_DAY + h * US_PER_HOUR\<rparr>)
      else Inl ValueError)"

definition date_of :: "pydatetime \<Rightarrow> pydate" where
  "date_of dt = dt_us dt div US_PER_DAY + 1"

text \<open>
  \<open>_ord2ymd\<close> of the library, and \<open>str(date)\<close>, which is \<open>%04d-%02d-%02d\<close> of year,
  month and day.
\<close>

definition DAYS_IN_MONTH :: "int list" where
  "DAYS_IN_MONTH = [-1, 31, 28, 31, 30, 31, 30, 31, 31, 30, 31, 30, 31]"

definition DAYS_BEFORE_MONTH :: "int list" where
  "DAYS_BEFORE_MONTH = [-1, 0, 31, 59, 90, 120, 151, 181, 212, 243, 273, 304, 334]"

definition ord2ymd :: "int \<Rightarrow> int \<times> int \<times> int" where
  "ord2ymd ordinal =
     (let n = ordinal - 1;
          n400 = n div 146097; n = n mod 146097;
          year = n400 * 400 + 1;
          n100 = n div 36524; n = n mod 36524;
          n4 = n div 1461; n = n mod 1461;
          n1 = n div 365; n = n mod 365;
          year = year + n100 * 100 + n4 * 4 + n1
      in
      if n1 = 4 \<or> n100 = 4 then (year - 1, 12, 31)
      else
        (let leapyear = (n1 = 3 \<and> (n4 \<noteq> 24 \<or> n100 = 3));
             month = (n + 50) div 32;
             preceding = DAYS_BEFORE_MONTH ! nat month + (if month > 2 \<and> leapyear then 1 else 0)
         in
         if preceding > n
         then (let month = month - 1;
                   preceding = preceding -
                     (DAYS_IN_MONTH ! nat month + (if month = 2 \<and> leapyear then 1 else 0))
               in (year, month, n - preceding + 1))
         else (year, month, n - preceding + 1)))"

definition date_str :: "pydate \<Rightarrow> pystr" where
  "date_str d =
     (case ord2ymd d of
        (y, m, dd) \<Rightarrow> zero_pad 4 (nat y) @ [45] @ zero_pad 2 (nat m) @ [45] @ zero_pad 2 (nat dd))"

section \<open>Configuration and the time window\<close>

record UsecaseConfig =
  tz_msk :: pystr
  publish_hour_msk :: int
  lookback_hours :: int
  min_interest_score :: real

definition default_config :: UsecaseConfig where
  "default_config =
     \<lparr>tz_msk = str ''Europe/Moscow'', publish_hour_msk = 8, lookback_hours = 48,
      min_interest_score = 0\<rparr>"

text \<open>
  \<open>compute_window\<close>. Two aware datetimes of one zone are compared by their wall-clock
  fields, as \<open>now_msk < anchor_msk\<close> is.
\<close>

definition compute_window ::
  "tzdb \<Rightarrow> pydatetime \<Rightarrow> UsecaseConfig \<Rightarrow> pyerror + (pydate \<times> pydatetime \<times> pydatetime)" where
  "compute_window db now_utc0 cfg =
     (let utc_tz = (case dt_tzinfo now_utc0 of None \<Rightarrow> timezone_utc | Some t \<Rightarrow> t);
          now_utc = now_utc0\<lparr>dt_tzinfo := Some utc_tz\<rparr>
      in
      bindE (ZoneInfo db (tz_msk cfg)) (\<lambda>tz.
      bindE (astimezone db utc_tz now_utc tz) (\<lambda>now_msk.
      bindE (replace_time now_msk (publish_hour_msk cfg)) (\<lambda>anchor0.
      bindE (if dt_us now_msk < dt_us anchor0 then dt_add anchor0 (- US_PER_DAY) else Inr anchor0)
        (\<lambda>anchor_msk.
      let run_date_msk = date_of anchor_msk;
          window_end_msk = anchor_msk
      in
      bindE (dt_add anchor_msk (- (lookback_hours cfg * US_PER_HOUR))) (\<lambda>window_start_msk.
      bindE (astimezone db tz window_start_msk timezone_utc) (\<lambda>window_start_utc.
      bindE (astimezone db tz window_end_msk timezone_utc) (\<lambda>window_end_utc.
      Inr (run_date_msk, window_start_utc, window_end_utc)))))))))"

section \<open>Data contracts\<close>

datatype Severity = SEV_WARNING | SEV_ERROR

datatype SourceSystem = NHL | VK | TG | STORAGE | CORE

datatype VideoKind = HIGHLIGHTS | FULL

datatype VideoStatus = VS_FOUND | VS_NOT_FOUND | VS_ERROR

text \<open>\<open>e.source.value\<close>: the string value of the enum member.\<close>

fun source_value :: "SourceSystem \<Rightarrow> pystr" where
  "source_value NHL = str ''nhl''"
| "source_value VK = str ''vk''"
| "source_value TG = str ''tg''"
| "source_value STORAGE = str ''storage''"
| "source_value CORE = str ''core''"

record AppError =
  err_code :: pystr
  err_source :: SourceSystem
  err_severity :: Severity
  err_message :: pystr
  err_details :: "(pystr \<times> pystr) list option"

record Team =
  team_id :: pystr
  team_name :: pystr
  team_abbr :: "pystr option"

record MatchForScoring =
  m_match_id :: pystr
  m_start_time_utc :: pydatetime
  m_season :: pystr
  m_home :: Team
  m_away :: Team
  m_score_home :: int
  m_score_away :: int
  m_went_overtime :: "bool option"
  m_went_shootout :: "bool option"

record PlayerGameStats =
  ps_match_id :: pystr
  ps_player_id :: pystr
  ps_player_name :: pystr
  ps_team_id :: pystr
  ps_goals :: int
  ps_assists :: int

text \<open>
  Python floats are modelled as real numbers: arithmetic is exact, and there is neither
  NaN nor an infinity. Scores and weights are such numbers.
\<close>

record ScoringRule =
  r_entity_type :: pystr
  r_entity_id :: pystr
  r_weight :: real
  r_label :: "pystr option"

record ScoreContribution =
  sc_reason :: pystr
  sc_weight :: real
  sc_entity_type :: "pystr option"
  sc_entity_id :: "pystr option"

record MatchScore =
  ms_match_id :: pystr
  ms_score :: real
  ms_contributions :: "ScoreContribution list"

record RankedMatch =
  rm_match :: MatchForScoring
  rm_rank :: MatchScore

record VideoLinkResult =
  v_match_id :: pystr
  v_kind :: VideoKind
  v_status :: VideoStatus
  v_url :: "pystr option"
  v_error :: "AppError option"
  v_source :: SourceSystem

record PostItemPublic =
  it_match_id :: pystr
  it_title :: pystr
  it_start_time_utc :: pydatetime
  it_highlights_url :: "pystr option"
  it_full_url :: "pystr option"
  it_rank_score :: "real option"

record PostPublic =
  p_run_date_msk :: pydate
  p_generated_at_utc :: pydatetime
  p_items :: "PostItemPublic list"
  p_errors :: "AppError list"

record PublicationRecord =
  pr_run_date_msk :: pydate
  pr_published :: bool
  pr_tg_message_id :: "pystr option"
  pr_published_at_utc :: "pydatetime option"

section \<open>Scoring and ranking\<close>

text \<open>\<open>d.get(k, default)\<close> on a dictionary modelled as a map.\<close>

definition get_or :: "('k \<rightharpoonup> 'v) \<Rightarrow> 'k \<Rightarrow> 'v \<Rightarrow> 'v" where
  "get_or d k dflt = (case d k of None \<Rightarrow> dflt | Some v \<Rightarrow> v)"

text \<open>
  \<open>_index_rules\<close>: one pass over the rules, the pair of dictionaries as the loop state.
  \<open>r.entity_type or ""\<close> is \<open>r.entity_type\<close> for every string.
\<close>

definition index_rule ::
  "ScoringRule \<Rightarrow> (pystr \<rightharpoonup> real) \<times> (pystr \<rightharpoonup> real) \<Rightarrow> (pystr \<rightharpoonup> real) \<times> (pystr \<rightharpoonup> real)" where
  "index_rule r acc =
     (let player_w = fst acc; team_w = snd acc;
          et = py_lower (py_strip (r_entity_type r))
      in
      if et = str ''player''
      then (player_w(r_entity_id r \<mapsto> get_or player_w (r_entity_id r) 0 + r_weight r), team_w)
      else if et = str ''team''
      then (player_w, team_w(r_entity_id r \<mapsto> get_or team_w (r_entity_id r) 0 + r_weight r))
      else (player_w, team_w))"

definition index_rules :: "ScoringRule list \<Rightarrow> (pystr \<rightharpoonup> real) \<times> (pystr \<rightharpoonup> real)" where
  "index_rules rules = fold index_rule rules (Map.empty, Map.empty)"

text \<open>\<open>stats_by_match.setdefault(ps.match_id, []).append(ps)\<close> for every stat row.\<close>

definition group_stat ::
  "PlayerGameStats \<Rightarrow> (pystr \<rightharpoonup> PlayerGameStats list) \<Rightarrow> (pystr \<rightharpoonup> PlayerGameStats list)" where
  "group_stat ps d = d(ps_match_id ps \<mapsto> get_or d (ps_match_id ps) [] @ [ps])"

definition group_stats :: "PlayerGameStats list \<Rightarrow> (pystr \<rightharpoonup> PlayerGameStats list)" where
  "group_stats player_stats = fold group_stat player_stats Map.empty"

text \<open>
  The body of the loop over the matches keeps the running score and the contributions.
  \<open>if w:\<close> holds for a weight that is present and not zero.
\<close>

type_synonym score_acc = "real \<times> ScoreContribution list"

definition team_step :: "(pystr \<rightharpoonup> real) \<Rightarrow> Team \<Rightarrow> score_acc \<Rightarrow> score_acc" where
  "team_step team_w t acc =
     (case team_w (team_id t) of
        None \<Rightarrow> acc
      | Some w \<Rightarrow>
          if w \<noteq> 0
          then (fst acc + w,
                snd acc @ [\<lparr>sc_reason = str ''team_weight'', sc_weight = w,
                            sc_entity_type = Some (str ''team''), sc_entity_id = Some (team_id t)\<rparr>])
          else acc)"

definition player_step :: "(pystr \<rightharpoonup> real) \<Rightarrow> PlayerGameStats \<Rightarrow> score_acc \<Rightarrow> score_acc" where
  "player_step player_w ps acc =
     (case player_w (ps_player_id ps) of
        None \<Rightarrow> acc
      | Some w \<Rightarrow>
          if w = 0 then acc
          else
            (let factor = real_of_int (ps_goals ps) + 0.5 * real_of_int (ps_assists ps);
                 delta = w * factor
             in
             if delta \<noteq> 0
             then (fst acc + delta,
                   snd acc @ [\<lparr>sc_reason = str ''player_weight'', sc_weight = delta,
                               sc_entity_type = Some (str ''player''),
                               sc_entity_id = Some (ps_player_id ps)\<rparr>])
             else acc))"

definition bonus_step :: "bool \<Rightarrow> pystr \<Rightarrow> real \<Rightarrow> score_acc \<Rightarrow> score_acc" where
  "bonus_step cond reason w acc =
     (if cond
      then (fst acc + w,
            snd acc @ [\<lparr>sc_reason = reason, sc_weight = w, sc_entity_type = None, sc_entity_id = None\<rparr>])
      else acc)"

definition score_match ::
  "(pystr \<rightharpoonup> real) \<Rightarrow> (pystr \<rightharpoonup> real) \<Rightarrow> (pystr \<rightharpoonup> PlayerGameStats list) \<Rightarrow> MatchForScoring
     \<Rightarrow> RankedMatch" where
  "score_match player_w team_w stats_by_match m =
     (let acc0 = (0, []);
          acc1 = fold (team_step team_w) [m_home m, m_away m] acc0;
          acc2 = fold (player_step player_w) (get_or stats_by_match (m_match_id m) []) acc1;
          acc3 = bonus_step (m_went_overtime m = Some True) (str ''overtime_bonus'') 0.2 acc2;
          acc4 = bonus_step (m_went_shootout m = Some True) (str ''shootout_bonus'') 0.2 acc3;
          total_goals = m_score_home m + m_score_away m;
          tg_bonus = min 1.0 (real_of_int total_goals / 10.0) * 0.2;
          acc5 = bonus_step (tg_bonus \<noteq> 0) (str ''total_goals_bonus'') tg_bonus acc4
      in
      \<lparr>rm_match = m,
       rm_rank = \<lparr>ms_match_id = m_match_id m, ms_score = fst acc5, ms_contributions = snd acc5\<rparr>\<rparr>)"

text \<open>
  \<open>ranked.sort(key=lambda rm: rm.rank.score, reverse=True)\<close>: the library's sort is
  stable, also in reverse. Each entry is put in front of the first later entry whose
  score is not greater than its own.
\<close>

fun insert_by_score :: "RankedMatch \<Rightarrow> RankedMatch list \<Rightarrow> RankedMatch list" where
  "insert_by_score x [] = [x]"
| "insert_by_score x (y # ys) =
     (if ms_score (rm_rank y) \<le> ms_score (rm_rank x) then x # y # ys
      else y # insert_by_score x ys)"

definition sort_by_score_desc :: "RankedMatch list \<Rightarrow> RankedMatch list" where
  "sort_by_score_desc xs = foldr insert_by_score xs []"

definition score_all ::
  "MatchForScoring list \<Rightarrow> PlayerGameStats list \<Rightarrow> ScoringRule list \<Rightarrow> RankedMatch list" where
  "score_all matches player_stats rules =
     (let w = index_rules rules; stats_by_match = group_stats player_stats
      in map (score_match (fst w) (snd w) stats_by_match) matches)"

definition score_matches ::
  "MatchForScoring list \<Rightarrow> PlayerGameStats list \<Rightarrow> ScoringRule list \<Rightarrow> RankedMatch list" where
  "score_matches matches player_stats rules =
     sort_by_score_desc (score_all matches player_stats rules)"

section \<open>Public post and rendering\<close>

definition match_title :: "MatchForScoring \<Rightarrow> pystr" where
  "match_title m =
     (let h = (case team_abbr (m_home m) of
                 None \<Rightarrow> team_name (m_home m)
               | Some ab \<Rightarrow> if ab = [] then team_name (m_home m) else ab);
          a = (case team_abbr (m_away m) of
                 None \<Rightarrow> team_name (m_away m)
               | Some ab \<Rightarrow> if ab = [] then team_name (m_away m) else ab)
      in h @ [32, 8212, 32] @ a)"

text \<open>\<open>vmap.setdefault(vr.match_id, {})[vr.kind] = vr\<close>: a later result replaces an earlier one.\<close>

type_synonym vmap = "pystr \<rightharpoonup> (VideoKind \<rightharpoonup> VideoLinkResult)"

definition index_video :: "VideoLinkResult \<Rightarrow> vmap \<Rightarrow> vmap" where
  "index_video vr vm = vm(v_match_id vr \<mapsto> (get_or vm (v_match_id vr) Map.empty)(v_kind vr \<mapsto> vr))"

definition found_url :: "VideoLinkResult option \<Rightarrow> pystr option" where
  "found_url r = (case r of None \<Rightarrow> None | Some vr \<Rightarrow> if v_status vr = VS_FOUND then v_url vr else None)"

definition video_error_step :: "VideoLinkResult option \<Rightarrow> AppError list \<Rightarrow> AppError list" where
  "video_error_step r errors =
     (case r of
        None \<Rightarrow> errors
      | Some vr \<Rightarrow>
          if v_status vr = VS_ERROR
          then (case v_error vr of None \<Rightarrow> errors | Some e \<Rightarrow> errors @ [e])
          else errors)"

definition post_step ::
  "UsecaseConfig \<Rightarrow> vmap \<Rightarrow> RankedMatch \<Rightarrow> PostItemPublic list \<times> AppError list
     \<Rightarrow> PostItemPublic list \<times> AppError list" where
  "post_step cfg vm rm acc =
     (if ms_score (rm_rank rm) < min_interest_score cfg then acc
      else
        (let vids = get_or vm (m_match_id (rm_match rm)) Map.empty;
             h = vids HIGHLIGHTS;
             f = vids FULL;
             highlights_url = found_url h;
             full_url = found_url f;
             errors = fold video_error_step [h, f] (snd acc)
         in
         (fst acc @ [\<lparr>it_match_id = m_match_id (rm_match rm),
                       it_title = match_title (rm_match rm),
                       it_start_time_utc = m_start_time_utc (rm_match rm),
                       it_highlights_url = highlights_url,
                       it_full_url = full_url,
                       it_rank_score = Some (ms_score (rm_rank rm))\<rparr>],
          errors)))"

text \<open>\<open>now_utc if now_utc.tzinfo else now_utc.replace(tzinfo=timezone.utc)\<close>.\<close>

definition as_utc :: "pydatetime \<Rightarrow> pydatetime" where
  "as_utc now_utc =
     (case dt_tzinfo now_utc of
        None \<Rightarrow> now_utc\<lparr>dt_tzinfo := Some timezone_utc\<rparr>
      | Some t \<Rightarrow> now_utc)"

definition build_post_public ::
  "pydate \<Rightarrow> pydatetime \<Rightarrow> RankedMatch list \<Rightarrow> VideoLinkResult list \<Rightarrow> UsecaseConfig
     \<Rightarrow> AppError list \<Rightarrow> PostPublic" where
  "build_post_public run_date_msk now_utc ranked video_results cfg extra_errors =
     (let vm = fold index_video video_results Map.empty;
          acc = fold (post_step cfg vm) ranked ([], extra_errors)
      in
      \<lparr>p_run_date_msk = run_date_msk,
       p_generated_at_utc = as_utc now_utc,
       p_items = fst acc,
       p_errors = snd acc\<rparr>)"

text \<open>The fixed texts of the renderer, as code points.\<close>

definition NO_MATCHES_LINE :: pystr where
  "NO_MATCHES_LINE = [1052, 1072, 1090, 1095, 1077, 1081, 32, 1085, 1077, 1090, 46]"

definition LINK_NOT_FOUND :: pystr where
  "LINK_NOT_FOUND = [1089, 1089, 1099, 1083, 1082, 1072, 32, 1085, 1077, 32, 1085, 1072, 1081, 1076,
     1077, 1085, 1072]"

definition PROBLEMS_HEADER :: pystr where
  "PROBLEMS_HEADER = [9888, 65039, 32, 1055, 1088, 1086, 1073, 1083, 1077, 1084, 1099, 58]"

text \<open>\<open>if it.highlights_url:\<close> holds for a URL that is present and not empty.\<close>

definition link_line :: "pystr \<Rightarrow> pystr option \<Rightarrow> pystr" where
  "link_line label url =
     (case url of
        None \<Rightarrow> label @ LINK_NOT_FOUND
      | Some u \<Rightarrow> if u = [] then label @ LINK_NOT_FOUND else label @ u)"

definition item_step :: "PostItemPublic \<Rightarrow> pystr list \<Rightarrow> pystr list" where
  "item_step it lines =
     lines @ [it_title it,
              link_line (str ''  highlights: '') (it_highlights_url it),
              link_line (str ''  full: '') (it_full_url it),
              []]"

type_synonym error_key = "pystr \<times> pystr \<times> pystr"

definition error_key_of :: "AppError \<Rightarrow> error_key" where
  "error_key_of e = (err_code e, source_value (err_source e), err_message e)"

definition error_line :: "AppError \<Rightarrow> pystr" where
  "error_line e =
     str ''- ['' @ source_value (err_source e) @ str ''] '' @ err_code e @ str '': '' @ err_message e"

text \<open>The loop over the errors: the set \<open>seen\<close> and the lines are its state.\<close>

definition error_step :: "AppError \<Rightarrow> error_key set \<times> pystr list \<Rightarrow> error_key set \<times> pystr list" where
  "error_step e acc =
     (let key = error_key_of e in
      if key \<in> fst acc then acc
      else (insert key (fst acc), snd acc @ [error_line e]))"

definition render_lines :: "PostPublic \<Rightarrow> pystr list" where
  "render_lines post =
     (let lines0 = (if p_items post = [] then [NO_MATCHES_LINE]
                    else fold item_step (p_items post) [])
      in
      if p_errors post = [] then lines0
      else snd (fold error_step (p_errors post) ({}, lines0 @ [PROBLEMS_HEADER])))"

definition render_post :: "PostPublic \<Rightarrow> pystr" where
  "render_post post = py_strip (py_join [10] (render_lines post))"

section \<open>The orchestrator and its collaborators\<close>

text \<open>
  The five collaborators are ports: any implementation may stand behind them. Each call
  takes the state of the outside world and returns its result with the new state. The
  orchestrator's result carries the calls it made, in order.
\<close>

record 'w ports =
  results_loader_load ::
    "pydatetime \<Rightarrow> pydatetime \<Rightarrow> 'w
       \<Rightarrow> (MatchForScoring list \<times> PlayerGameStats list \<times> AppError list) \<times> 'w"
  rules_loader_load :: "'w \<Rightarrow> (ScoringRule list \<times> AppError list) \<times> 'w"
  video_loader_load_for_matches :: "pystr list \<Rightarrow> 'w \<Rightarrow> (VideoLinkResult list \<times> AppError list) \<times> 'w"
  publisher_publish :: "pystr \<Rightarrow> 'w \<Rightarrow> (pystr option \<times> AppError list) \<times> 'w"
  registry_get :: "pydate \<Rightarrow> 'w \<Rightarrow> (PublicationRecord option \<times> AppError list) \<times> 'w"
  registry_set_published :: "PublicationRecord \<Rightarrow> 'w \<Rightarrow> AppError list \<times> 'w"

datatype call =
    Call_registry_get pydate
  | Call_results_load pydatetime pydatetime
  | Call_rules_load
  | Call_video_load "pystr list"
  | Call_publish pystr
  | Call_set_published PublicationRecord

definition optional_str :: "pystr option \<Rightarrow> pystr" where
  "optional_str v = (case v of None \<Rightarrow> str ''None'' | Some t \<Rightarrow> t)"

definition already_published :: "pydate \<Rightarrow> PublicationRecord \<Rightarrow> AppError" where
  "already_published run_date_msk rec =
     \<lparr>err_code = str ''ALREADY_PUBLISHED'',
      err_source = CORE,
      err_severity = SEV_WARNING,
      err_message =
        [1055, 1086, 1089, 1090, 32, 1079, 1072, 32] @ date_str run_date_msk
        @ [32, 1091, 1078, 1077, 32, 1073, 1099, 1083, 32, 1086, 1087, 1091, 1073, 1083, 1080, 1082,
           1086, 1074, 1072, 1085, 32]
        @ str ''(tg_message_id='' @ optional_str (pr_tg_message_id rec) @ str '').'',
      err_details = None\<rparr>"

text \<open>
  The path taken when the loader returns no match. The post is built on the list object
  \<open>errors\<close> itself, which the later \<open>extend\<close> calls grow: the post returned holds the
  final list, the text published was rendered from the list as it was before.
\<close>

definition publish_no_matches ::
  "'w ports \<Rightarrow> pydate \<Rightarrow> pydatetime \<Rightarrow> AppError list \<Rightarrow> 'w \<Rightarrow> call list
     \<Rightarrow> (PostPublic option \<times> AppError list) \<times> 'w \<times> call list" where
  "publish_no_matches P run_date_msk now_utc errors0 w calls =
     (let post = \<lparr>p_run_date_msk = run_date_msk, p_generated_at_utc = now_utc, p_items = [],
                  p_errors = errors0\<rparr>;
          text = render_post post
      in
      case publisher_publish P text w of ((msg_id, pub_err), w1) \<Rightarrow>
      let errors1 = errors0 @ pub_err;
          record = \<lparr>pr_run_date_msk = run_date_msk, pr_published = True, pr_tg_message_id = msg_id,
                    pr_published_at_utc = None\<rparr>
      in
      case registry_set_published P record w1 of (set_err, w2) \<Rightarrow>
      let errors2 = errors1 @ set_err
      in ((Some (post\<lparr>p_errors := errors2\<rparr>), errors2), w2,
          calls @ [Call_publish text, Call_set_published record]))"

text \<open>The path with matches: rules, scoring, videos, post, publication, registration.\<close>

definition publish_matches ::
  "'w ports \<Rightarrow> UsecaseConfig \<Rightarrow> pydate \<Rightarrow> pydatetime \<Rightarrow> MatchForScoring list
     \<Rightarrow> PlayerGameStats list \<Rightarrow> AppError list \<Rightarrow> 'w \<Rightarrow> call list
     \<Rightarrow> (PostPublic option \<times> AppError list) \<times> 'w \<times> call list" where
  "publish_matches P cfg run_date_msk now_utc matches player_stats errors0 w calls =
     (case rules_loader_load P w of ((rules, rules_err), w1) \<Rightarrow>
      let errors1 = errors0 @ rules_err;
          ranked = score_matches matches player_stats rules;
          match_ids = map (\<lambda>rm. m_match_id (rm_match rm))
                        (filter (\<lambda>rm. ms_score (rm_rank rm) \<ge> min_interest_score cfg) ranked)
      in
      case video_loader_load_for_matches P match_ids w1 of ((video_res, video_err), w2) \<Rightarrow>
      let errors2 = errors1 @ video_err;
          post = build_post_public run_date_msk now_utc ranked video_res cfg errors2;
          text = render_post post
      in
      case publisher_publish P text w2 of ((msg_id, pub_err), w3) \<Rightarrow>
      let errors3 = errors2 @ pub_err;
          record = \<lparr>pr_run_date_msk = run_date_msk, pr_published = True, pr_tg_message_id = msg_id,
                    pr_published_at_utc = Some (as_utc now_utc)\<rparr>
      in
      case registry_set_published P record w3 of (set_err, w4) \<Rightarrow>
      let errors4 = errors3 @ set_err;
          post' = \<lparr>p_run_date_msk = p_run_date_msk post,
                   p_generated_at_utc = p_generated_at_utc post,
                   p_items = p_items post,
                   p_errors = errors4\<rparr>
      in ((Some post', errors4), w4,
          calls @ [Call_rules_load, Call_video_load match_ids, Call_publish text,
                   Call_set_published record]))"

definition load_and_publish ::
  "'w ports \<Rightarrow> UsecaseConfig \<Rightarrow> pydate \<Rightarrow> pydatetime \<Rightarrow> pydatetime \<Rightarrow> pydatetime
     \<Rightarrow> AppError list \<Rightarrow> 'w \<Rightarrow> call list
     \<Rightarrow> (PostPublic option \<times> AppError list) \<times> 'w \<times> call list" where
  "load_and_publish P cfg run_date_msk now_utc window_start_utc window_end_utc errors0 w calls0 =
     (case results_loader_load P window_start_utc window_end_utc w of
        ((matches, player_stats, res_err), w1) \<Rightarrow>
      let errors1 = errors0 @ res_err;
          calls1 = calls0 @ [Call_results_load window_start_utc window_end_utc]
      in
      if matches = []
      then publish_no_matches P run_date_msk now_utc errors1 w1 calls1
      else publish_matches P cfg run_date_msk now_utc matches player_stats errors1 w1 calls1)"

text \<open>
  \<open>run_daily_digest\<close>. An exception of \<open>compute_window\<close> leaves it before any
  collaborator is called.
\<close>

definition run_daily_digest ::
  "tzdb \<Rightarrow> pydatetime \<Rightarrow> UsecaseConfig \<Rightarrow> 'w ports \<Rightarrow> 'w
     \<Rightarrow> pyerror + ((PostPublic option \<times> AppError list) \<times> 'w \<times> call list)" where
  "run_daily_digest db now_utc cfg P w =
     bindE (compute_window db now_utc cfg) (\<lambda>(run_date_msk, window_start_utc, window_end_utc).
       case registry_get P run_date_msk w of ((rec, reg_err), w1) \<Rightarrow>
       let errors0 = [] @ reg_err;
           calls0 = [Call_registry_get run_date_msk]
       in
       case rec of
         None \<Rightarrow>
           Inr (load_and_publish P cfg run_date_msk now_utc window_start_utc window_end_utc
                  errors0 w1 calls0)
       | Some r \<Rightarrow>
           if pr_published r
           then Inr ((None, errors0 @ [already_published run_date_msk r]), w1, calls0)
           else Inr (load_and_publish P cfg run_date_msk now_utc window_start_utc window_end_utc
                       errors0 w1 calls0))"

text \<open>
  \<open>InMemoryPublicationRegistry\<close>: its dictionary is the registry's part of the world;
  the other collaborators act on the rest.
\<close>

type_synonym store = "pydate \<rightharpoonup> PublicationRecord"

definition InMemoryPublicationRegistry_get ::
  "pydate \<Rightarrow> store \<times> 'x \<Rightarrow> (PublicationRecord option \<times> AppError list) \<times> (store \<times> 'x)" where
  "InMemoryPublicationRegistry_get run_date_msk w = ((fst w run_date_msk, []), w)"

definition InMemoryPublicationRegistry_set_published ::
  "PublicationRecord \<Rightarrow> store \<times> 'x \<Rightarrow> AppError list \<times> (store \<times> 'x)" where
  "InMemoryPublicationRegistry_set_published record w =
     ([], ((fst w)(pr_run_date_msk record \<mapsto> record), snd w))"

definition on_rest :: "('x \<Rightarrow> 'r \<times> 'x) \<Rightarrow> store \<times> 'x \<Rightarrow> 'r \<times> (store \<times> 'x)" where
  "on_rest f w = (case f (snd w) of (r, x') \<Rightarrow> (r, (fst w, x')))"

definition with_in_memory_registry :: "'x ports \<Rightarrow> (store \<times> 'x) ports" where
  "with_in_memory_registry P =
     \<lparr>results_loader_load = (\<lambda>a b. on_rest (results_loader_load P a b)),
      rules_loader_load = on_rest (rules_loader_load P),
      video_loader_load_for_matches = (\<lambda>ids. on_rest (video_loader_load_for_matches P ids)),
      publisher_publish = (\<lambda>t. on_rest (publisher_publish P t)),
      registry_get = InMemoryPublicationRegistry_get,
      registry_set_published = InMemoryPublicationRegistry_set_published\<rparr>"

section \<open>The anchor of the window as the specification words it\<close>

text \<open>
  The publish hour of the local day of a wall-clock time, a day earlier when the time is
  before it.
\<close>

definition local_anchor :: "int \<Rightarrow> int \<Rightarrow> int" where
  "local_anchor wall hour =
     (let a0 = (wall div US_PER_DAY) * US_PER_DAY + hour * US_PER_HOUR
      in if wall < a0 then a0 - US_PER_DAY else a0)"

section \<open>The scoring formula as the specification words it\<close>

text \<open>
  The weight of an entity: the sum of the weights of the rules of its kind that name it,
  absent when no rule does. The kind of a rule is its entity type, trimmed and lowered.
\<close>

definition rule_kind :: "ScoringRule \<Rightarrow> pystr" where
  "rule_kind r = py_lower (py_strip (r_entity_type r))"

definition summed_weight :: "pystr \<Rightarrow> ScoringRule list \<Rightarrow> pystr \<Rightarrow> real option" where
  "summed_weight kind rules ident =
     (let ws = map r_weight (filter (\<lambda>r. rule_kind r = kind \<and> r_entity_id r = ident) rules)
      in if ws = [] then None else Some (sum_list ws))"

definition team_term :: "ScoringRule list \<Rightarrow> Team \<Rightarrow> real" where
  "team_term rules t =
     (case summed_weight (str ''team'') rules (team_id t) of None \<Rightarrow> 0 | Some w \<Rightarrow> w)"

definition player_term :: "ScoringRule list \<Rightarrow> PlayerGameStats \<Rightarrow> real" where
  "player_term rules ps =
     (case summed_weight (str ''player'') rules (ps_player_id ps) of
        None \<Rightarrow> 0
      | Some w \<Rightarrow> w * (real_of_int (ps_goals ps) + 0.5 * real_of_int (ps_assists ps)))"

definition interest_score :: "PlayerGameStats list \<Rightarrow> ScoringRule list \<Rightarrow> MatchForScoring \<Rightarrow> real" where
  "interest_score player_stats rules m =
     team_term rules (m_home m) + team_term rules (m_away m)
     + sum_list (map (player_term rules)
         (filter (\<lambda>ps. ps_match_id ps = m_match_id m) player_stats))
     + (if m_went_overtime m = Some True then 0.2 else 0)
     + (if m_went_shootout m = Some True then 0.2 else 0)
     + min 1 (real_of_int (m_score_home m + m_score_away m) / 10) * 0.2"

definition score_of :: "RankedMatch \<Rightarrow> real" where
  "score_of rm = ms_score (rm_rank rm)"

section \<open>The public view and the rendered lines as the specification words them\<close>

text \<open>The video result of a match and kind: the last one listed for them.\<close>

definition last_video :: "VideoLinkResult list \<Rightarrow> pystr \<Rightarrow> VideoKind \<Rightarrow> VideoLinkResult option" where
  "last_video vrs mid k = find (\<lambda>vr. v_match_id vr = mid \<and> v_kind vr = k) (rev vrs)"

definition survivors :: "UsecaseConfig \<Rightarrow> RankedMatch list \<Rightarrow> RankedMatch list" where
  "survivors cfg ranked = filter (\<lambda>rm. min_interest_score cfg \<le> score_of rm) ranked"

definition embedded_error :: "VideoLinkResult option \<Rightarrow> AppError list" where
  "embedded_error r =
     (case r of
        None \<Rightarrow> []
      | Some vr \<Rightarrow>
          if v_status vr = VS_ERROR then (case v_error vr of None \<Rightarrow> [] | Some e \<Rightarrow> [e]) else [])"

definition video_errors :: "VideoLinkResult list \<Rightarrow> RankedMatch \<Rightarrow> AppError list" where
  "video_errors vrs rm =
     embedded_error (last_video vrs (m_match_id (rm_match rm)) HIGHLIGHTS)
     @ embedded_error (last_video vrs (m_match_id (rm_match rm)) FULL)"

definition public_item :: "VideoLinkResult list \<Rightarrow> RankedMatch \<Rightarrow> PostItemPublic" where
  "public_item vrs rm =
     \<lparr>it_match_id = m_match_id (rm_match rm),
      it_title = match_title (rm_match rm),
      it_start_time_utc = m_start_time_utc (rm_match rm),
      it_highlights_url = found_url (last_video vrs (m_match_id (rm_match rm)) HIGHLIGHTS),
      it_full_url = found_url (last_video vrs (m_match_id (rm_match rm)) FULL),
      it_rank_score = Some (score_of rm)\<rparr>"

text \<open>The lines of one item: title, highlights, full recording, separator.\<close>

definition item_block :: "PostItemPublic \<Rightarrow> pystr list" where
  "item_block it =
     [it_title it,
      link_line (str ''  highlights: '') (it_highlights_url it),
      link_line (str ''  full: '') (it_full_url it),
      []]"

text \<open>The elements that are the first of their key, in order.\<close>

fun first_occurrences :: "('a \<Rightarrow> 'k) \<Rightarrow> 'a list \<Rightarrow> 'a list" where
  "first_occurrences key [] = []"
| "first_occurrences key (x # xs) = x # first_occurrences key (filter (\<lambda>y. key y \<noteq> key x) xs)"

text \<open>What the renderer reads of a post: titles and links of the items, keys of the errors.\<close>

definition rendered_view ::
  "PostPublic \<Rightarrow> (pystr \<times> pystr option \<times> pystr option) list \<times> error_key list" where
  "rendered_view post =
     (map (\<lambda>it. (it_title it, it_highlights_url it, it_full_url it)) (p_items post),
      map error_key_of (p_errors post))"

text \<open>A ranked match with other goal totals.\<close>

definition with_final_score :: "(RankedMatch \<Rightarrow> int \<times> int) \<Rightarrow> RankedMatch \<Rightarrow> RankedMatch" where
  "with_final_score g rm =
     rm\<lparr>rm_match := (rm_match rm)\<lparr>m_score_home := fst (g rm), m_score_away := snd (g rm)\<rparr>\<rparr>"

text \<open>The lines of an item and of an error, from what the renderer reads of them.\<close>

definition block_of_view :: "pystr \<times> pystr option \<times> pystr option \<Rightarrow> pystr list" where
  "block_of_view v =
     (case v of (t, h, f) \<Rightarrow>
        [t, link_line (str ''  highlights: '') h, link_line (str ''  full: '') f, []])"

definition line_of_key :: "error_key \<Rightarrow> pystr" where
  "line_of_key k = (case k of (c, s, m) \<Rightarrow> str ''- ['' @ s @ str ''] '' @ c @ str '': '' @ m)"

section \<open>Observations of a run\<close>

text \<open>A registry answer that is a record marked published.\<close>

definition is_published :: "PublicationRecord option \<Rightarrow> bool" where
  "is_published rec = (case rec of None \<Rightarrow> False | Some r \<Rightarrow> pr_published r)"

fun is_publish :: "call \<Rightarrow> bool" where
  "is_publish (Call_publish t) = True"
| "is_publish c = False"

definition count_publish :: "call list \<Rightarrow> nat" where
  "count_publish calls = length (filter is_publish calls)"

section \<open>Concrete inputs\<close>

text \<open>
  A zone with one change of offset, at the UTC time \<open>t\<close>, from \<open>a\<close> to \<open>b\<close>. A wall-clock
  time is read with the old offset up to the later (\<open>fold = 0\<close>) or the earlier
  (\<open>fold = 1\<close>) of the two local readings of \<open>t\<close>, as \<open>ZoneInfo\<close> does.
\<close>

definition two_offset_zone :: "int \<Rightarrow> int \<Rightarrow> int \<Rightarrow> zone" where
  "two_offset_zone t a b =
     \<lparr>z_utcoffset = (\<lambda>wall fold. if wall < t + (if fold then min a b else max a b) then a else b),
      z_fromutc_offset = (\<lambda>u. if u < t then a else b),
      z_fromutc_fold = (\<lambda>u. t \<le> u \<and> u - t < a - b)\<rparr>"

text \<open>
  \<open>Europe/Moscow\<close> as in force since 27 March 2011: UTC+4 until 2014-10-25T22:00:00Z
  (ordinal 735531), UTC+3 from then on.
\<close>

definition EUROPE_MOSCOW :: zone where
  "EUROPE_MOSCOW =
     two_offset_zone (735530 * US_PER_DAY + 22 * US_PER_HOUR) (4 * US_PER_HOUR) (3 * US_PER_HOUR)"

definition tzdata :: tzdb where
  "tzdata key = (if key = str ''Europe/Moscow'' then Some EUROPE_MOSCOW else None)"

text \<open>\<open>datetime(y, m, d, hour, tzinfo=timezone.utc)\<close>, the date given by its ordinal.\<close>

definition utc_datetime :: "int \<Rightarrow> int \<Rightarrow> pydatetime" where
  "utc_datetime ordinal hour =
     \<lparr>dt_us = (ordinal - 1) * US_PER_DAY + hour * US_PER_HOUR, dt_fold = False,
      dt_tzinfo = Some timezone_utc\<rparr>"

text \<open>
  The worked example of the specification, which is the data of the mock loaders: \<open>m1\<close>,
  Boston at home, decided 4-3 in overtime, and \<open>m2\<close>, decided 2-1; two goals and an assist
  of player \<open>p_1\<close> in \<open>m1\<close>; a rule of weight 1.5 for the team \<open>BOS\<close> and one of weight 2.0
  for the player \<open>p_1\<close>.
\<close>

definition example_m1 :: MatchForScoring where
  "example_m1 =
     \<lparr>m_match_id = str ''m1'', m_start_time_utc = utc_datetime 739704 23, m_season = str ''2025-2026'',
      m_home = \<lparr>team_id = str ''BOS'', team_name = str ''Boston Bruins'', team_abbr = Some (str ''BOS'')\<rparr>,
      m_away = \<lparr>team_id = str ''NYR'', team_name = str ''New York Rangers'', team_abbr = Some (str ''NYR'')\<rparr>,
      m_score_home = 4, m_score_away = 3, m_went_overtime = Some True, m_went_shootout = Some False\<rparr>"

definition example_m2 :: MatchForScoring where
  "example_m2 =
     \<lparr>m_match_id = str ''m2'', m_start_time_utc = utc_datetime 739704 9, m_season = str ''2025-2026'',
      m_home = \<lparr>team_id = str ''TOR'', team_name = str ''Toronto Maple Leafs'', team_abbr = Some (str ''TOR'')\<rparr>,
      m_away = \<lparr>team_id = str ''MTL'', team_name = str ''Montreal Canadiens'', team_abbr = Some (str ''MTL'')\<rparr>,
      m_score_home = 2, m_score_away = 1, m_went_overtime = Some False, m_went_shootout = Some False\<rparr>"

definition example_stats :: "PlayerGameStats list" where
  "example_stats =
     [\<lparr>ps_match_id = str ''m1'', ps_player_id = str ''p_1'', ps_player_name = str ''Star Player'',
       ps_team_id = str ''BOS'', ps_goals = 2, ps_assists = 1\<rparr>,
      \<lparr>ps_match_id = str ''m2'', ps_player_id = str ''p_2'', ps_player_name = str ''Other Player'',
       ps_team_id = str ''TOR'', ps_goals = 1, ps_assists = 0\<rparr>]"

definition example_rules :: "ScoringRule list" where
  "example_rules =
     [\<lparr>r_entity_type = str ''team'', r_entity_id = str ''BOS'', r_weight = 1.5,
       r_label = Some (str ''favorite team'')\<rparr>,
      \<lparr>r_entity_type = str ''player'', r_entity_id = str ''p_1'', r_weight = 2.0,
       r_label = Some (str ''favorite player'')\<rparr>]"

text \<open>The match \<open>m1\<close> ranked with score 1, and video results for its highlights.\<close>

definition ranked_m1 :: RankedMatch where
  "ranked_m1 =
     \<lparr>rm_match = example_m1,
      rm_rank = \<lparr>ms_match_id = str ''m1'', ms_score = 1, ms_contributions = []\<rparr>\<rparr>"

definition vk_timeout :: AppError where
  "vk_timeout =
     \<lparr>err_code = str ''VK_TIMEOUT'', err_source = VK, err_severity = SEV_ERROR,
      err_message = str ''timeout'', err_details = None\<rparr>"

definition video_error_m1 :: VideoLinkResult where
  "video_error_m1 =
     \<lparr>v_match_id = str ''m1'', v_kind = HIGHLIGHTS, v_status = VS_ERROR, v_url = None,
      v_error = Some vk_timeout, v_source = VK\<rparr>"

definition video_found_m1 :: VideoLinkResult where
  "video_found_m1 =
     \<lparr>v_match_id = str ''m1'', v_kind = HIGHLIGHTS, v_status = VS_FOUND,
      v_url = Some (str ''https://vk.example/m1/highlights''), v_error = None, v_source = VK\<rparr>"

definition video_found_no_url :: VideoLinkResult where
  "video_found_no_url =
     \<lparr>v_match_id = str ''m1'', v_kind = HIGHLIGHTS, v_status = VS_FOUND, v_url = None,
      v_error = None, v_source = VK\<rparr>"

text \<open>
  Two posts that differ in the rank score of their item only, with two errors of one
  code, source and message, and a post without items.
\<close>

definition vk_timeout_warning :: AppError where
  "vk_timeout_warning = vk_timeout\<lparr>err_severity := SEV_WARNING\<rparr>"

definition item_m1 :: PostItemPublic where
  "item_m1 =
     \<lparr>it_match_id = str ''m1'', it_title = str ''BOS'' @ [32, 8212, 32] @ str ''NYR'',
      it_start_time_utc = utc_datetime 739704 23,
      it_highlights_url = Some (str ''https://vk.example/m1/highlights''), it_full_url = None,
      it_rank_score = Some 6.84\<rparr>"

definition post_m1 :: PostPublic where
  "post_m1 =
     \<lparr>p_run_date_msk = 739705, p_generated_at_utc = utc_datetime 739705 6, p_items = [item_m1],
      p_errors = [vk_timeout, vk_timeout_warning]\<rparr>"

definition post_m1_rescored :: PostPublic where
  "post_m1_rescored = post_m1\<lparr>p_items := [item_m1\<lparr>it_rank_score := Some 0\<rparr>]\<rparr>"

definition post_empty :: PostPublic where
  "post_empty =
     \<lparr>p_run_date_msk = 739705, p_generated_at_utc = utc_datetime 739705 6, p_items = [],
      p_errors = []\<rparr>"

text \<open>
  Collaborators that hold no state: a loader without matches, a publisher that returns
  the message id of \<open>StdoutPublisher\<close>, a registry that knows no record; and the same with
  a loader that returns \<open>m1\<close> and a video source that fails for its highlights.
\<close>

definition quiet_ports :: "unit ports" where
  "quiet_ports =
     \<lparr>results_loader_load = (\<lambda>ws we w. (([], [], []), w)),
      rules_loader_load = (\<lambda>w. (([], []), w)),
      video_loader_load_for_matches = (\<lambda>ids w. (([], []), w)),
      publisher_publish = (\<lambda>t w. ((Some (str ''mock_message_id''), []), w)),
      registry_get = (\<lambda>d w. ((None, []), w)),
      registry_set_published = (\<lambda>r w. ([], w))\<rparr>"

definition video_error_ports :: "unit ports" where
  "video_error_ports =
     quiet_ports
       \<lparr>results_loader_load := (\<lambda>ws we w. (([example_m1], [], []), w)),
        video_loader_load_for_matches := (\<lambda>ids w. (([video_error_m1], []), w))\<rparr>"

definition published_record :: PublicationRecord where
  "published_record =
     \<lparr>pr_run_date_msk = 739705, pr_published = True,
      pr_tg_message_id = Some (str ''mock_message_id''), pr_published_at_utc = None\<rparr>"

text \<open>The post built in the run with \<open>video_error_ports\<close> at 2026-03-30T06:00:00Z.\<close>

definition built_post_m1 :: PostPublic where
  "built_post_m1 =
     build_post_public 739705 (utc_datetime 739705 6) (score_matches [example_m1] [] [])
       [video_error_m1] default_config []"

section \<open>The time window\<close>

lemmas window_defs =
  compute_window_def ZoneInfo_def astimezone_def utcoffset_def fromutc_def dt_add_def
  replace_time_def date_of_def bindE_def timezone_utc_def US_PER_DAY_def US_PER_HOUR_def
  MAXORDINAL_def

lemmas example_defs =
  tzdata_def EUROPE_MOSCOW_def two_offset_zone_def default_config_def utc_datetime_def str_def

text \<open>
  What every window returned satisfies: the run date is the date of the anchor, the end
  is the anchor and the start the wall-clock time \<open>lookback_hours\<close> before it, each read
  in UTC with the offset the zone reports for it. Where the zone has one offset, the window
  is \<open>lookback_hours\<close> long.
\<close>

lemma dt_add_Inr:
  "dt_add dt d = Inr r \<Longrightarrow> r = dt\<lparr>dt_us := dt_us dt + d, dt_fold := False\<rparr>"
  by (auto simp: dt_add_def Let_def split: if_splits)

lemma to_utc_Inr:
  assumes "astimezone db (ZoneTz k) dt timezone_utc = Inr r" and "db k = Some z"
  shows "dt_us r = dt_us dt - z_utcoffset z (dt_us dt) (dt_fold dt)
         \<and> dt_tzinfo r = Some timezone_utc"
  using assms
  by (auto simp: astimezone_def utcoffset_def fromutc_def bindE_def timezone_utc_def
      dest!: dt_add_Inr split: sum.splits)

lemma anchor_Inr:
  assumes "replace_time now_msk h = Inr a0"
    and "(if dt_us now_msk < dt_us a0 then dt_add a0 (- US_PER_DAY) else Inr a0) = Inr a"
  shows "dt_us a = local_anchor (dt_us now_msk) h \<and> dt_tzinfo a = dt_tzinfo now_msk
         \<and> 0 \<le> h \<and> h \<le> 23"
  using assms
  by (auto simp: replace_time_def local_anchor_def Let_def dest!: dt_add_Inr split: if_splits)

lemma compute_window_Inr:
  assumes "compute_window db now cfg = Inr (key, ws, we)"
  shows "\<exists>z now_msk anchor fold.
           db (tz_msk cfg) = Some z
           \<and> astimezone db (case dt_tzinfo now of None \<Rightarrow> timezone_utc | Some t \<Rightarrow> t)
                 (now\<lparr>dt_tzinfo := Some (case dt_tzinfo now of None \<Rightarrow> timezone_utc | Some t \<Rightarrow> t)\<rparr>)
                 (ZoneTz (tz_msk cfg)) = Inr now_msk
           \<and> anchor = local_anchor (dt_us now_msk) (publish_hour_msk cfg)
           \<and> key = anchor div US_PER_DAY + 1
           \<and> dt_us we = anchor - z_utcoffset z anchor fold
           \<and> dt_us ws = anchor - lookback_hours cfg * US_PER_HOUR
                 - z_utcoffset z (anchor - lookback_hours cfg * US_PER_HOUR) False
           \<and> dt_tzinfo ws = Some timezone_utc \<and> dt_tzinfo we = Some timezone_utc"
proof -
  let ?mytz = "case dt_tzinfo now of None \<Rightarrow> timezone_utc | Some t \<Rightarrow> t"
  let ?tz = "ZoneTz (tz_msk cfg)"
  from assms obtain z where z: "db (tz_msk cfg) = Some z"
    by (auto simp: compute_window_def ZoneInfo_def bindE_def Let_def split: option.splits)
  with assms obtain now_msk where
    loc: "astimezone db ?mytz (now\<lparr>dt_tzinfo := Some ?mytz\<rparr>) ?tz = Inr now_msk"
    by (auto simp: compute_window_def ZoneInfo_def bindE_def Let_def split: sum.splits)
  with assms z obtain a0 where a0: "replace_time now_msk (publish_hour_msk cfg) = Inr a0"
    by (auto simp: compute_window_def ZoneInfo_def bindE_def Let_def split: sum.splits)
  with assms z loc obtain a where
    a: "(if dt_us now_msk < dt_us a0 then dt_add a0 (- US_PER_DAY) else Inr a0) = Inr a"
    by (simp add: compute_window_def ZoneInfo_def bindE_def Let_def split: sum.splits)
  with assms z loc a0 obtain s where
    s: "dt_add a (- (lookback_hours cfg * US_PER_HOUR)) = Inr s"
    by (simp add: compute_window_def ZoneInfo_def bindE_def Let_def split: sum.splits)
  with assms z loc a0 a have
    ws: "astimezone db ?tz s timezone_utc = Inr ws" and we: "astimezone db ?tz a timezone_utc = Inr we"
    and key: "key = date_of a"
    by (simp_all add: compute_window_def ZoneInfo_def bindE_def Let_def split: sum.splits)
  from dt_add_Inr [OF s] have s_us: "dt_us s = dt_us a - lookback_hours cfg * US_PER_HOUR"
    and s_fold: "dt_fold s = False"
    by simp_all
  from to_utc_Inr [OF ws z] s_fold to_utc_Inr [OF we z] anchor_Inr [OF a0 a] s_us key z loc
  have "db (tz_msk cfg) = Some z
      \<and> astimezone db ?mytz (now\<lparr>dt_tzinfo := Some ?mytz\<rparr>) ?tz = Inr now_msk
      \<and> dt_us a = local_anchor (dt_us now_msk) (publish_hour_msk cfg)
      \<and> key = dt_us a div US_PER_DAY + 1
      \<and> dt_us we = dt_us a - z_utcoffset z (dt_us a) (dt_fold a)
      \<and> dt_us ws = dt_us a - lookback_hours cfg * US_PER_HOUR
            - z_utcoffset z (dt_us a - lookback_hours cfg * US_PER_HOUR) False
      \<and> dt_tzinfo ws = Some timezone_utc \<and> dt_tzinfo we = Some timezone_utc"
    by (simp add: date_of_def)
  then show ?thesis by blast
qed

lemma compute_window_length:
  assumes "compute_window db now cfg = Inr (key, ws, we)"
    and "db (tz_msk cfg) = Some z"
    and "\<And>wall fold. z_utcoffset z wall fold = off"
  shows "dt_us we - dt_us ws = lookback_hours cfg * US_PER_HOUR"
  using compute_window_Inr [OF assms(1)] assms(2,3) by auto

text \<open>
  C5. The window is meant to end at the publish hour of the local day of the reference
  instant and to be \<open>lookback_hours\<close> long. The start is computed on the wall clock of the
  zone, so the length follows the zone's changes of offset: for the default configuration
  and the reference instant 2014-10-27T05:00:00Z (08:00 in Moscow, two days after Moscow
  went from UTC+4 to UTC+3) the run date is 2014-10-27, the window ends at
  2014-10-27T05:00:00Z and starts at 2014-10-25T04:00:00Z: 49 hours, not the 48 configured.
  Anchor, day shift and run date are as claimed (\<open>compute_window_Inr\<close>).
\<close>

theorem compute_window_moscow_2014:
  "compute_window tzdata (utc_datetime 735533 5) default_config
     = Inr (735533, utc_datetime 735531 4, utc_datetime 735533 5)
   \<and> dt_us (utc_datetime 735533 5) - dt_us (utc_datetime 735531 4) = 49 * US_PER_HOUR
   \<and> lookback_hours default_config = 48"
  by (simp add: window_defs example_defs Let_def)

text \<open>
  C10. A reference datetime without time zone is read as UTC: the result, a window or an
  exception, is the one of the same datetime with \<open>timezone.utc\<close> attached.
\<close>

theorem compute_window_naive_is_utc:
  "compute_window db (now\<lparr>dt_tzinfo := None\<rparr>) cfg
     = compute_window db (now\<lparr>dt_tzinfo := Some timezone_utc\<rparr>) cfg"
  by (simp add: compute_window_def)

section \<open>Scoring and ranking: the code against the formula\<close>

lemma mset_insert_by_score: "mset (insert_by_score x xs) = add_mset x (mset xs)"
  by (induction xs) auto

lemma mset_sort_by_score_desc: "mset (sort_by_score_desc xs) = mset xs"
  by (induction xs) (auto simp: sort_by_score_desc_def mset_insert_by_score)

lemma set_insert_by_score: "set (insert_by_score x xs) = insert x (set xs)"
  by (induction xs) auto

lemma sorted_insert_by_score:
  "sorted_wrt (\<lambda>a b. score_of b \<le> score_of a) xs
   \<Longrightarrow> sorted_wrt (\<lambda>a b. score_of b \<le> score_of a) (insert_by_score x xs)"
  by (induction xs) (auto simp: set_insert_by_score score_of_def)

lemma sorted_sort_by_score_desc:
  "sorted_wrt (\<lambda>a b. score_of b \<le> score_of a) (sort_by_score_desc xs)"
  by (induction xs) (auto simp: sort_by_score_desc_def sorted_insert_by_score)

lemma filter_insert_by_score:
  "filter (\<lambda>e. score_of e = s) (insert_by_score x xs) = filter (\<lambda>e. score_of e = s) (x # xs)"
  by (induction xs) (auto simp: score_of_def)

lemma filter_sort_by_score_desc:
  "filter (\<lambda>e. score_of e = s) (sort_by_score_desc xs) = filter (\<lambda>e. score_of e = s) xs"
  by (induction xs) (auto simp: sort_by_score_desc_def filter_insert_by_score)

lemma index_rules_snoc: "index_rules (rs @ [r]) = index_rule r (index_rules rs)"
  by (simp add: index_rules_def)

lemma summed_weight_Nil: "summed_weight kind [] ident = None"
  by (simp add: summed_weight_def)

lemma summed_weight_snoc:
  "summed_weight kind (rs @ [r]) ident =
     (if rule_kind r = kind \<and> r_entity_id r = ident
      then Some (get_or (summed_weight kind rs) ident 0 + r_weight r)
      else summed_weight kind rs ident)"
  by (auto simp: summed_weight_def get_or_def Let_def)

lemma str_player_neq_team: "str ''player'' \<noteq> str ''team''"
  by (simp add: str_def)

lemma index_rules_summed:
  "index_rules rules = (summed_weight (str ''player'') rules, summed_weight (str ''team'') rules)"
proof (induction rules rule: rev_induct)
  case Nil
  show ?case by (auto simp: index_rules_def summed_weight_Nil)
next
  case (snoc r rs)
  show ?case
    unfolding index_rules_snoc snoc.IH
    using str_player_neq_team
    by (auto simp: index_rule_def Let_def rule_kind_def summed_weight_snoc fun_eq_iff get_or_def)
qed

lemma group_stats_snoc: "group_stats (pss @ [ps]) = group_stat ps (group_stats pss)"
  by (simp add: group_stats_def)

lemma get_or_group_stats:
  "get_or (group_stats pss) mid [] = filter (\<lambda>ps. ps_match_id ps = mid) pss"
proof (induction pss rule: rev_induct)
  case Nil
  show ?case by (simp add: group_stats_def get_or_def)
next
  case (snoc ps pss)
  then show ?case
    unfolding group_stats_snoc
    by (auto simp: group_stat_def get_or_def)
qed

lemma fst_team_step:
  "fst (team_step (summed_weight (str ''team'') rules) t acc) = fst acc + team_term rules t"
  by (auto simp: team_step_def team_term_def split: option.splits)

lemma fst_player_step:
  "fst (player_step (summed_weight (str ''player'') rules) ps acc) = fst acc + player_term rules ps"
  by (auto simp: player_step_def player_term_def Let_def split: option.splits)

lemma fst_fold_player_step:
  "fst (fold (player_step (summed_weight (str ''player'') rules)) pss acc)
     = fst acc + sum_list (map (player_term rules) pss)"
  by (induction pss arbitrary: acc) (auto simp: fst_player_step)

lemma fst_bonus_step: "fst (bonus_step c reason w acc) = fst acc + (if c then w else 0)"
  by (simp add: bonus_step_def)

lemma score_match_interest:
  "score_of (score_match (summed_weight (str ''player'') rules) (summed_weight (str ''team'') rules)
       (group_stats pss) m) = interest_score pss rules m"
  by (simp add: score_of_def score_match_def Let_def fst_bonus_step fst_fold_player_step fst_team_step
      get_or_group_stats interest_score_def)

lemma rm_match_score_match: "rm_match (score_match pw tw sbm m) = m"
  by (simp add: score_match_def Let_def)

lemma score_all_entries:
  "map (\<lambda>rm. (rm_match rm, score_of rm)) (score_all ms pss rules)
     = map (\<lambda>m. (m, interest_score pss rules m)) ms"
  by (simp add: score_all_def Let_def index_rules_summed score_match_interest rm_match_score_match)

lemmas scoring_defs =
  score_matches_def sort_by_score_desc_def score_all_def index_rules_def index_rule_def
  group_stats_def group_stat_def score_match_def team_step_def player_step_def bonus_step_def
  get_or_def py_strip_def py_lower_def isspace_def score_of_def

lemmas example_data_defs =
  example_m1_def example_m2_def example_stats_def example_rules_def ranked_m1_def vk_timeout_def
  video_error_m1_def video_found_m1_def video_found_no_url_def

lemma example_scores:
  "map (\<lambda>rm. (m_match_id (rm_match rm), score_of rm))
     (score_matches [example_m1, example_m2] example_stats example_rules)
   = [(str ''m1'', 6.84), (str ''m2'', 0.06)]"
  by (simp add: scoring_defs example_data_defs str_def Let_def)

text \<open>
  C7. The ranking at the end of \<open>score_matches\<close> sorts the scored entries, which stand in
  the order of the input matches: its output is a permutation of them, in order of
  non-increasing score, and the entries of any one score keep the order they had.
\<close>

theorem ranking_sorted_stable:
  "score_matches ms pss rules = sort_by_score_desc (score_all ms pss rules)
   \<and> map rm_match (score_all ms pss rules) = ms
   \<and> mset (sort_by_score_desc xs) = mset xs
   \<and> sorted_wrt (\<lambda>a b. score_of b \<le> score_of a) (sort_by_score_desc xs)
   \<and> (\<forall>s. filter (\<lambda>e. score_of e = s) (sort_by_score_desc xs) = filter (\<lambda>e. score_of e = s) xs)"
  by (simp add: score_matches_def mset_sort_by_score_desc sorted_sort_by_score_desc
      filter_sort_by_score_desc score_all_def Let_def rm_match_score_match comp_def)

lemma score_matches_entries:
  "mset (map (\<lambda>rm. (rm_match rm, score_of rm)) (score_matches ms pss rules))
     = mset (map (\<lambda>m. (m, interest_score pss rules m)) ms)"
proof -
  have "mset (map (\<lambda>rm. (rm_match rm, score_of rm)) (score_matches ms pss rules))
        = image_mset (\<lambda>rm. (rm_match rm, score_of rm)) (mset (score_all ms pss rules))"
    by (simp add: score_matches_def mset_sort_by_score_desc)
  also have "\<dots> = mset (map (\<lambda>rm. (rm_match rm, score_of rm)) (score_all ms pss rules))"
    by simp
  finally show ?thesis
    by (simp only: score_all_entries)
qed

lemma length_score_matches: "length (score_matches ms pss rules) = length ms"
proof -
  have "length (score_matches ms pss rules) = size (mset (score_matches ms pss rules))"
    by simp
  also have "\<dots> = size (mset (score_all ms pss rules))"
    by (simp only: score_matches_def mset_sort_by_score_desc)
  finally show ?thesis
    by (simp add: score_all_def Let_def)
qed

text \<open>
  C6. \<open>score_matches\<close> returns one entry for each input match, and the score of a match is
  the sum of the summed weights of its home and away teams, of weight times (goals + 0.5
  times assists) for each stat row of the match whose player has a weight, of 0.2 for
  overtime, of 0.2 for a shootout, and of min(1, total goals / 10) times 0.2. On the worked
  example the ranked scores are 6.84 for \<open>m1\<close>, then 0.06 for \<open>m2\<close>.
\<close>

theorem score_matches_formula:
  "length (score_matches ms pss rules) = length ms
   \<and> mset (map (\<lambda>rm. (rm_match rm, score_of rm)) (score_matches ms pss rules))
       = mset (map (\<lambda>m. (m, interest_score pss rules m)) ms)
   \<and> map (\<lambda>rm. (m_match_id (rm_match rm), score_of rm))
       (score_matches [example_m1, example_m2] example_stats example_rules)
       = [(str ''m1'', 6.84), (str ''m2'', 0.06)]"
  using length_score_matches score_matches_entries example_scores by blast

section \<open>The public post and its rendering\<close>

lemma fold_index_video_snoc:
  "fold index_video (vrs @ [vr]) vm = index_video vr (fold index_video vrs vm)"
  by simp

lemma last_video_snoc:
  "last_video (vrs @ [vr]) mid k =
     (if v_match_id vr = mid \<and> v_kind vr = k then Some vr else last_video vrs mid k)"
  by (simp add: last_video_def)

lemma get_or_index_video:
  "get_or (index_video vr vm) mid Map.empty k =
     (if v_match_id vr = mid \<and> v_kind vr = k then Some vr else get_or vm mid Map.empty k)"
  by (auto simp: index_video_def get_or_def split: option.splits)

lemma vmap_last_video:
  "get_or (fold index_video vrs Map.empty) mid Map.empty k = last_video vrs mid k"
proof (induction vrs rule: rev_induct)
  case Nil
  show ?case by (simp add: get_or_def last_video_def)
next
  case (snoc vr vrs)
  show ?case
    by (simp only: fold_index_video_snoc get_or_index_video last_video_snoc snoc.IH)
qed

lemma video_error_step_eq: "video_error_step r errs = errs @ embedded_error r"
  by (simp add: video_error_step_def embedded_error_def split: option.splits)

lemma post_step_eq:
  "post_step cfg (fold index_video vrs Map.empty) rm acc =
     (if min_interest_score cfg \<le> score_of rm
      then (fst acc @ [public_item vrs rm], snd acc @ video_errors vrs rm)
      else acc)"
  by (simp add: post_step_def Let_def vmap_last_video video_error_step_eq public_item_def
      video_errors_def score_of_def not_less)

lemma fold_post_step:
  "fold (post_step cfg (fold index_video vrs Map.empty)) ranked acc =
     (fst acc @ map (public_item vrs) (survivors cfg ranked),
      snd acc @ concat (map (video_errors vrs) (survivors cfg ranked)))"
proof (induction ranked arbitrary: acc)
  case Nil
  show ?case by (simp add: survivors_def)
next
  case (Cons rm ranked)
  let ?F = "post_step cfg (fold index_video vrs Map.empty)"
  have "fold ?F (rm # ranked) acc = fold ?F ranked (?F rm acc)"
    by simp
  also have "\<dots> = (fst (?F rm acc) @ map (public_item vrs) (survivors cfg ranked),
      snd (?F rm acc) @ concat (map (video_errors vrs) (survivors cfg ranked)))"
    by (rule Cons.IH)
  also have "\<dots> = (fst acc @ map (public_item vrs) (survivors cfg (rm # ranked)),
      snd acc @ concat (map (video_errors vrs) (survivors cfg (rm # ranked))))"
    by (simp add: post_step_eq survivors_def)
  finally show ?case .
qed

lemma build_post_public_eq:
  "build_post_public d now ranked vrs cfg extra =
     \<lparr>p_run_date_msk = d, p_generated_at_utc = as_utc now,
      p_items = map (public_item vrs) (survivors cfg ranked),
      p_errors = extra @ concat (map (video_errors vrs) (survivors cfg ranked))\<rparr>"
  by (simp add: build_post_public_def Let_def fold_post_step)

lemma fold_item_step: "fold item_step items lines = lines @ concat (map item_block items)"
  by (induction items arbitrary: lines) (auto simp: item_step_def item_block_def)

lemma fold_error_step:
  "snd (fold error_step es (seen, lines)) =
     lines @ map error_line (first_occurrences error_key_of (filter (\<lambda>e. error_key_of e \<notin> seen) es))"
proof (induction es arbitrary: seen lines)
  case Nil
  show ?case by simp
next
  case (Cons e es)
  show ?case
  proof (cases "error_key_of e \<in> seen")
    case True
    then have "fold error_step (e # es) (seen, lines) = fold error_step es (seen, lines)"
      by (simp add: error_step_def)
    with True show ?thesis by (simp add: Cons.IH)
  next
    case False
    have flt: "filter (\<lambda>y. error_key_of y \<noteq> error_key_of e) (filter (\<lambda>e. error_key_of e \<notin> seen) es)
        = filter (\<lambda>y. error_key_of y \<notin> insert (error_key_of e) seen) es"
      by (simp add: conj_commute)
    from False have "fold error_step (e # es) (seen, lines)
        = fold error_step es (insert (error_key_of e) seen, lines @ [error_line e])"
      by (simp add: error_step_def)
    then have "snd (fold error_step (e # es) (seen, lines))
        = (lines @ [error_line e]) @ map error_line (first_occurrences error_key_of
            (filter (\<lambda>y. error_key_of y \<notin> insert (error_key_of e) seen) es))"
      by (simp only: Cons.IH)
    with False flt show ?thesis by simp
  qed
qed

lemma render_lines_eq:
  "render_lines post =
     (if p_items post = [] then [NO_MATCHES_LINE] else concat (map item_block (p_items post)))
     @ (if p_errors post = [] then []
        else PROBLEMS_HEADER # map error_line (first_occurrences error_key_of (p_errors post)))"
  by (simp add: render_lines_def Let_def fold_error_step fold_item_step)

lemma key_first_occurrences:
  "key ` set (first_occurrences key xs) = key ` set xs"
  by (induction key xs rule: first_occurrences.induct) auto

lemma distinct_first_occurrences: "distinct (map key (first_occurrences key xs))"
proof (induction key xs rule: first_occurrences.induct)
  case (1 key)
  show ?case by simp
next
  case (2 key x xs)
  have "key x \<notin> key ` set (first_occurrences key (filter (\<lambda>y. key y \<noteq> key x) xs))"
    unfolding key_first_occurrences by auto
  with 2 show ?case by simp
qed

lemma length_first_occurrences: "length (first_occurrences key xs) = card (key ` set xs)"
proof -
  have "length (first_occurrences key xs) = length (map key (first_occurrences key xs))" by simp
  also have "\<dots> = card (set (map key (first_occurrences key xs)))"
    using distinct_first_occurrences [of key xs] by (simp only: distinct_card)
  also have "\<dots> = card (key ` set xs)"
    by (simp add: key_first_occurrences)
  finally show ?thesis .
qed

text \<open>
  C8, as the code has it. A ranked match yields an item exactly when its score is at
  least the threshold, one item for each such match, in rank order. The video result of a
  match and kind is the last one listed for them: a later result replaces an earlier one.
  A link of an item is present exactly when that result has status found and carries a
  URL. The errors of the post are the caller's errors followed, in rank order of the
  surviving matches, by the error embedded in that result for highlights and for the full
  recording when its status is error and it carries one.
\<close>

theorem build_post_public_view:
  "p_items (build_post_public d now ranked vrs cfg extra) = map (public_item vrs) (survivors cfg ranked)
   \<and> p_errors (build_post_public d now ranked vrs cfg extra)
       = extra @ concat (map (video_errors vrs) (survivors cfg ranked))
   \<and> (it_highlights_url (public_item vrs rm) \<noteq> None)
       = (\<exists>vr u. last_video vrs (m_match_id (rm_match rm)) HIGHLIGHTS = Some vr
            \<and> v_status vr = VS_FOUND \<and> v_url vr = Some u)
   \<and> (it_full_url (public_item vrs rm) \<noteq> None)
       = (\<exists>vr u. last_video vrs (m_match_id (rm_match rm)) FULL = Some vr
            \<and> v_status vr = VS_FOUND \<and> v_url vr = Some u)"
  by (auto simp: build_post_public_eq public_item_def found_url_def split: option.splits)

text \<open>
  C8 as stated fails. The two results listed for the highlights of \<open>m1\<close> are an error
  carrying \<open>vk_timeout\<close> and then a found link: the match survives the threshold, and the
  post has no error at all. And a result with status found that carries no URL leaves the
  item without its link.
\<close>

theorem build_post_public_drops_replaced_results:
  "v_status video_error_m1 = VS_ERROR
   \<and> v_match_id video_error_m1 = m_match_id (rm_match ranked_m1)
   \<and> v_error video_error_m1 = Some vk_timeout
   \<and> min_interest_score default_config \<le> score_of ranked_m1
   \<and> p_errors (build_post_public 739705 (utc_datetime 739705 6) [ranked_m1]
        [video_error_m1, video_found_m1] default_config []) = []
   \<and> v_status video_found_no_url = VS_FOUND
   \<and> v_match_id video_found_no_url = m_match_id (rm_match ranked_m1)
   \<and> v_kind video_found_no_url = HIGHLIGHTS
   \<and> map it_highlights_url (p_items (build_post_public 739705 (utc_datetime 739705 6) [ranked_m1]
        [video_found_no_url] default_config [])) = [None]"
  by (simp add: build_post_public_eq survivors_def video_errors_def embedded_error_def
      last_video_def public_item_def found_url_def score_of_def example_data_defs
      default_config_def str_def)

lemma first_occurrences_map:
  "first_occurrences id (map key xs) = map key (first_occurrences key xs)"
proof (induction key xs rule: first_occurrences.induct)
  case (1 key)
  show ?case by simp
next
  case (2 key x xs)
  have "filter (\<lambda>y. y \<noteq> key x) (map key xs) = map key (filter (\<lambda>y. key y \<noteq> key x) xs)"
    by (simp add: filter_map comp_def)
  with 2 show ?case by simp
qed

lemma error_line_of_key: "error_line e = line_of_key (error_key_of e)"
  by (simp add: error_line_def line_of_key_def error_key_of_def)

lemma error_lines_of_keys:
  "map error_line (first_occurrences error_key_of es)
     = map line_of_key (first_occurrences id (map error_key_of es))"
proof -
  have "map error_line (first_occurrences error_key_of es)
        = map line_of_key (map error_key_of (first_occurrences error_key_of es))"
    by (simp add: error_line_of_key)
  then show ?thesis
    by (simp only: first_occurrences_map)
qed

lemma item_blocks_of_views:
  "map item_block xs
     = map block_of_view (map (\<lambda>it. (it_title it, it_highlights_url it, it_full_url it)) xs)"
  by (simp add: item_block_def block_of_view_def)

lemma render_lines_view:
  assumes "rendered_view p = rendered_view q"
  shows "render_lines p = render_lines q"
proof -
  from assms
  have items: "map (\<lambda>it. (it_title it, it_highlights_url it, it_full_url it)) (p_items p)
      = map (\<lambda>it. (it_title it, it_highlights_url it, it_full_url it)) (p_items q)"
    and keys: "map error_key_of (p_errors p) = map error_key_of (p_errors q)"
    by (simp_all add: rendered_view_def)
  have blocks: "map item_block (p_items p) = map item_block (p_items q)"
    by (simp only: item_blocks_of_views items)
  from items have "length (p_items p) = length (p_items q)"
    by (rule map_eq_imp_length_eq)
  then have no_items: "(p_items p = []) = (p_items q = [])"
    by auto
  have lines: "map error_line (first_occurrences error_key_of (p_errors p))
      = map error_line (first_occurrences error_key_of (p_errors q))"
    by (simp only: error_lines_of_keys keys)
  from keys have "length (p_errors p) = length (p_errors q)"
    by (rule map_eq_imp_length_eq)
  then have no_errors: "(p_errors p = []) = (p_errors q = [])"
    by auto
  show ?thesis
    unfolding render_lines_eq blocks lines no_items no_errors ..
qed

lemma score_of_with_final_score: "score_of (with_final_score g rm) = score_of rm"
  by (simp add: score_of_def with_final_score_def)

lemma public_item_with_final_score: "public_item vrs (with_final_score g rm) = public_item vrs rm"
  by (simp add: public_item_def with_final_score_def match_title_def score_of_def
      split: option.splits)

lemma video_errors_with_final_score: "video_errors vrs (with_final_score g rm) = video_errors vrs rm"
  by (simp add: video_errors_def with_final_score_def)

lemma survivors_with_final_score:
  "survivors cfg (map (with_final_score g) ranked) = map (with_final_score g) (survivors cfg ranked)"
  by (simp add: survivors_def filter_map comp_def score_of_with_final_score)

lemma render_post_view: "rendered_view p = rendered_view q \<Longrightarrow> render_post p = render_post q"
  unfolding render_post_def by (drule render_lines_view) simp

lemma rendered_view_rank_score:
  "rendered_view (post\<lparr>p_items := map (\<lambda>it. it\<lparr>it_rank_score := r it\<rparr>) (p_items post)\<rparr>)
     = rendered_view post"
  by (simp add: rendered_view_def comp_def)

lemma build_post_public_final_score:
  "build_post_public d now (map (with_final_score g) ranked) vrs cfg extra
     = build_post_public d now ranked vrs cfg extra"
  by (simp add: build_post_public_eq survivors_with_final_score comp_def
      public_item_with_final_score video_errors_with_final_score)

text \<open>
  C3. The rendered text is a function of the titles and links of the items and of the
  code, source and message of the errors: two posts that agree on these render to the same
  text. The rank score of an item is not among them, and the post built from ranked matches
  does not change when the goal totals of the matches are replaced by any others.
\<close>

theorem render_post_spoiler_free:
  "(rendered_view p = rendered_view q \<longrightarrow> render_post p = render_post q)
   \<and> rendered_view (post\<lparr>p_items := map (\<lambda>it. it\<lparr>it_rank_score := r it\<rparr>) (p_items post)\<rparr>)
       = rendered_view post
   \<and> build_post_public d now (map (with_final_score g) ranked) vrs cfg extra
       = build_post_public d now ranked vrs cfg extra"
  using render_post_view rendered_view_rank_score build_post_public_final_score by blast

text \<open>
  C9. The lines of the rendered text are the line for no matches when the post has no
  item and the blocks of the items otherwise, followed, when the post has errors, by the
  header and one line for each distinct code, source and message, taken from the first
  error that has them. Two errors that share all three give one error line.
\<close>

theorem render_post_lines:
  "render_post post = py_strip (py_join [10] (render_lines post))
   \<and> render_lines post =
       (if p_items post = [] then [NO_MATCHES_LINE] else concat (map item_block (p_items post)))
       @ (if p_errors post = [] then []
          else PROBLEMS_HEADER # map error_line (first_occurrences error_key_of (p_errors post)))
   \<and> distinct (map error_key_of (first_occurrences error_key_of (p_errors post)))
   \<and> error_key_of ` set (first_occurrences error_key_of (p_errors post))
       = error_key_of ` set (p_errors post)
   \<and> length (first_occurrences error_key_of (p_errors post))
       = card (error_key_of ` set (p_errors post))
   \<and> (error_key_of e1 = error_key_of e2 \<longrightarrow>
        render_lines (post\<lparr>p_errors := [e1, e2]\<rparr>) =
          (if p_items post = [] then [NO_MATCHES_LINE] else concat (map item_block (p_items post)))
          @ [PROBLEMS_HEADER, error_line e1])"
  by (simp add: render_post_def render_lines_eq distinct_first_occurrences key_first_occurrences
      length_first_occurrences)

lemmas example_post_defs =
  post_m1_def post_m1_rescored_def post_empty_def item_m1_def vk_timeout_warning_def vk_timeout_def

theorem render_post_spoiler_free_witness:
  "rendered_view post_m1_rescored = rendered_view post_m1
   \<and> post_m1_rescored \<noteq> post_m1
   \<and> render_post post_m1_rescored = render_post post_m1"
proof -
  have v: "rendered_view post_m1_rescored = rendered_view post_m1"
    by (simp add: rendered_view_def example_post_defs)
  have d: "post_m1_rescored \<noteq> post_m1"
    by (simp add: example_post_defs)
  from render_post_spoiler_free [of post_m1_rescored post_m1] v d show ?thesis
    by blast
qed

theorem render_post_lines_witness:
  "error_key_of vk_timeout = error_key_of vk_timeout_warning
   \<and> vk_timeout \<noteq> vk_timeout_warning
   \<and> render_lines (post_empty\<lparr>p_errors := [vk_timeout, vk_timeout_warning]\<rparr>)
       = [NO_MATCHES_LINE, PROBLEMS_HEADER, error_line vk_timeout]"
proof -
  have k: "error_key_of vk_timeout = error_key_of vk_timeout_warning"
    by (simp add: error_key_of_def example_post_defs)
  have d: "vk_timeout \<noteq> vk_timeout_warning"
    by (simp add: example_post_defs)
  have e: "p_items post_empty = []"
    by (simp add: post_empty_def)
  from render_post_lines [of post_empty vk_timeout vk_timeout_warning] k
  have "render_lines (post_empty\<lparr>p_errors := [vk_timeout, vk_timeout_warning]\<rparr>) =
          (if p_items post_empty = [] then [NO_MATCHES_LINE]
           else concat (map item_block (p_items post_empty)))
          @ [PROBLEMS_HEADER, error_line vk_timeout]"
    by blast
  with k d e show ?thesis by simp
qed

section \<open>The orchestrator\<close>

lemma run_already_published:
  assumes "compute_window db now cfg = Inr (key, ws, we)"
    and "registry_get P key w = ((Some rec, reg_err), w1)"
    and "pr_published rec"
  shows "run_daily_digest db now cfg P w
           = Inr ((None, reg_err @ [already_published key rec]), w1, [Call_registry_get key])"
  using assms by (simp add: run_daily_digest_def bindE_def)

lemma run_not_published:
  assumes "compute_window db now cfg = Inr (key, ws, we)"
    and "registry_get P key w = ((rec, reg_err), w1)"
    and "\<not> is_published rec"
  shows "run_daily_digest db now cfg P w
           = Inr (load_and_publish P cfg key now ws we reg_err w1 [Call_registry_get key])"
  using assms by (simp add: run_daily_digest_def bindE_def is_published_def split: option.splits)

lemma run_with_matches:
  assumes "compute_window db now cfg = Inr (key, ws, we)"
    and "registry_get P key w = ((rec, reg_err), w1)"
    and "\<not> is_published rec"
    and "results_loader_load P ws we w1 = ((matches, player_stats, res_err), w2)"
    and "matches \<noteq> []"
    and "rules_loader_load P w2 = ((rules, rules_err), w3)"
    and "ranked = score_matches matches player_stats rules"
    and "ids = map (\<lambda>rm. m_match_id (rm_match rm)) (survivors cfg ranked)"
    and "video_loader_load_for_matches P ids w3 = ((video_res, video_err), w4)"
    and "post = build_post_public key now ranked video_res cfg
                  (reg_err @ res_err @ rules_err @ video_err)"
    and "publisher_publish P (render_post post) w4 = ((msg_id, pub_err), w5)"
    and "record = \<lparr>pr_run_date_msk = key, pr_published = True, pr_tg_message_id = msg_id,
                    pr_published_at_utc = Some (as_utc now)\<rparr>"
    and "registry_set_published P record w5 = (set_err, w6)"
  shows "run_daily_digest db now cfg P w =
           Inr ((Some (post\<lparr>p_errors := reg_err @ res_err @ rules_err @ video_err @ pub_err @ set_err\<rparr>),
                 reg_err @ res_err @ rules_err @ video_err @ pub_err @ set_err),
                w6,
                [Call_registry_get key, Call_results_load ws we, Call_rules_load, Call_video_load ids,
                 Call_publish (render_post post), Call_set_published record])"
proof -
  have ids': "map (\<lambda>rm. m_match_id (rm_match rm))
                (filter (\<lambda>rm. min_interest_score cfg \<le> ms_score (rm_rank rm))
                   (score_matches matches player_stats rules)) = ids"
    using assms(7,8) by (simp add: survivors_def score_of_def)
  show ?thesis
    using assms(4-6,9-13) ids'
    by (simp add: run_not_published [OF assms(1-3)] load_and_publish_def publish_matches_def
        Let_def assms(7) [symmetric])
qed

lemma registry_get_in_memory:
  "registry_get (with_in_memory_registry Q) key (st, x) = ((st key, []), (st, x))"
  by (simp add: with_in_memory_registry_def InMemoryPublicationRegistry_get_def)

lemma publish_no_matches_in_memory:
  "\<exists>r x' rec t.
     publish_no_matches (with_in_memory_registry Q) key now e0 (st, x) calls
       = (r, (st(key \<mapsto> rec), x'), calls @ [Call_publish t, Call_set_published rec])
     \<and> pr_published rec"
  by (auto simp: publish_no_matches_def with_in_memory_registry_def on_rest_def Let_def
      InMemoryPublicationRegistry_set_published_def split: prod.splits)

lemma publish_matches_in_memory:
  "\<exists>r x' rec t ids.
     publish_matches (with_in_memory_registry Q) cfg key now ms pss e0 (st, x) calls
       = (r, (st(key \<mapsto> rec), x'),
          calls @ [Call_rules_load, Call_video_load ids, Call_publish t, Call_set_published rec])
     \<and> pr_published rec"
  by (auto simp: publish_matches_def with_in_memory_registry_def on_rest_def Let_def
      InMemoryPublicationRegistry_set_published_def split: prod.splits)

lemma load_and_publish_in_memory:
  "\<exists>r x' rec cs.
     load_and_publish (with_in_memory_registry Q) cfg key now ws we e0 (st, x) calls
       = (r, (st(key \<mapsto> rec), x'), calls @ cs)
     \<and> pr_published rec \<and> count_publish cs = 1"
proof -
  obtain ms pss res_err x1 where
    load: "results_loader_load Q ws we x = ((ms, pss, res_err), x1)"
    by (metis prod.exhaust)
  let ?calls = "calls @ [Call_results_load ws we]"
  show ?thesis
  proof (cases "ms = []")
    case True
    from publish_no_matches_in_memory [of Q key now "e0 @ res_err" st x1 ?calls]
    obtain r x' rec t where
      "publish_no_matches (with_in_memory_registry Q) key now (e0 @ res_err) (st, x1) ?calls
         = (r, (st(key \<mapsto> rec), x'), ?calls @ [Call_publish t, Call_set_published rec])"
      and "pr_published rec"
      by blast
    with True load
    have "load_and_publish (with_in_memory_registry Q) cfg key now ws we e0 (st, x) calls
            = (r, (st(key \<mapsto> rec), x'),
               calls @ [Call_results_load ws we, Call_publish t, Call_set_published rec])
          \<and> pr_published rec
          \<and> count_publish [Call_results_load ws we, Call_publish t, Call_set_published rec] = 1"
      by (simp add: load_and_publish_def with_in_memory_registry_def on_rest_def count_publish_def)
    then show ?thesis by blast
  next
    case False
    from publish_matches_in_memory [of Q cfg key now ms pss "e0 @ res_err" st x1 ?calls]
    obtain r x' rec t ids where
      "publish_matches (with_in_memory_registry Q) cfg key now ms pss (e0 @ res_err) (st, x1) ?calls
         = (r, (st(key \<mapsto> rec), x'),
            ?calls @ [Call_rules_load, Call_video_load ids, Call_publish t, Call_set_published rec])"
      and "pr_published rec"
      by blast
    with False load
    have "load_and_publish (with_in_memory_registry Q) cfg key now ws we e0 (st, x) calls
            = (r, (st(key \<mapsto> rec), x'),
               calls @ [Call_results_load ws we, Call_rules_load, Call_video_load ids,
                        Call_publish t, Call_set_published rec])
          \<and> pr_published rec
          \<and> count_publish [Call_results_load ws we, Call_rules_load, Call_video_load ids,
                            Call_publish t, Call_set_published rec] = 1"
      by (simp add: load_and_publish_def with_in_memory_registry_def on_rest_def count_publish_def)
    then show ?thesis by blast
  qed
qed

lemma run_twice_in_memory:
  assumes cw1: "compute_window db now1 cfg1 = Inr (key, ws1, we1)"
    and cw2: "compute_window db now2 cfg2 = Inr (key, ws2, we2)"
    and fresh: "\<not> is_published (st key)"
  shows "\<exists>r1 st1 x1 calls1 rec1.
           run_daily_digest db now1 cfg1 (with_in_memory_registry Q1) (st, x)
             = Inr (r1, (st1, x1), calls1)
           \<and> run_daily_digest db now2 cfg2 (with_in_memory_registry Q2) (st1, x1)
               = Inr ((None, [already_published key rec1]), (st1, x1), [Call_registry_get key])
           \<and> count_publish (calls1 @ [Call_registry_get key]) = 1"
proof -
  from load_and_publish_in_memory [of Q1 cfg1 key now1 ws1 we1 "[]" st x "[Call_registry_get key]"]
  obtain r x' rec cs where
    lp: "load_and_publish (with_in_memory_registry Q1) cfg1 key now1 ws1 we1 [] (st, x)
           [Call_registry_get key] = (r, (st(key \<mapsto> rec), x'), [Call_registry_get key] @ cs)"
    and pub: "pr_published rec" and one: "count_publish cs = 1"
    by blast
  have first: "run_daily_digest db now1 cfg1 (with_in_memory_registry Q1) (st, x)
      = Inr (r, (st(key \<mapsto> rec), x'), [Call_registry_get key] @ cs)"
    using run_not_published [OF cw1 registry_get_in_memory [of Q1 key st x] fresh] lp by simp
  have "registry_get (with_in_memory_registry Q2) key (st(key \<mapsto> rec), x')
      = ((Some rec, []), (st(key \<mapsto> rec), x'))"
    by (simp add: registry_get_in_memory)
  from run_already_published [OF cw2 this pub]
  have second: "run_daily_digest db now2 cfg2 (with_in_memory_registry Q2) (st(key \<mapsto> rec), x')
      = Inr ((None, [already_published key rec]), (st(key \<mapsto> rec), x'), [Call_registry_get key])"
    by simp
  from one have "count_publish (([Call_registry_get key] @ cs) @ [Call_registry_get key]) = 1"
    by (simp add: count_publish_def)
  with first second show ?thesis by blast
qed

lemma window_2026_03_30_06:
  "compute_window tzdata (utc_datetime 739705 6) default_config
     = Inr (739705, utc_datetime 739703 5, utc_datetime 739705 5)"
  by (simp add: window_defs example_defs Let_def)

lemma window_2026_03_30_12:
  "compute_window tzdata (utc_datetime 739705 12) default_config
     = Inr (739705, utc_datetime 739703 5, utc_datetime 739705 5)"
  by (simp add: window_defs example_defs Let_def)

text \<open>
  C1. When the registry answers the run-date key with a record marked published, the run
  consists of that one registry read: no publish call, no \<open>set_published\<close> call, no post,
  and the errors returned are those of the registry followed by one warning with code
  \<open>ALREADY_PUBLISHED\<close>. Hence two runs of one run-date key on an in-memory registry that
  is kept between them, and that holds no published record for the key at first, make one
  publish call in all, and the second run returns the warning.
\<close>

theorem run_daily_digest_idempotent:
  "(compute_window db now cfg = Inr (key, ws, we) \<longrightarrow>
    registry_get P key w = ((Some rec, reg_err), w1) \<longrightarrow>
    pr_published rec \<longrightarrow>
      run_daily_digest db now cfg P w
        = Inr ((None, reg_err @ [already_published key rec]), w1, [Call_registry_get key])
      \<and> err_code (already_published key rec) = str ''ALREADY_PUBLISHED''
      \<and> err_severity (already_published key rec) = SEV_WARNING)
   \<and> (compute_window db now1 cfg1 = Inr (key, ws1, we1) \<longrightarrow>
      compute_window db now2 cfg2 = Inr (key, ws2, we2) \<longrightarrow>
      \<not> is_published (st key) \<longrightarrow>
        (\<exists>r1 st1 x1 calls1 rec1.
           run_daily_digest db now1 cfg1 (with_in_memory_registry Q1) (st, x)
             = Inr (r1, (st1, x1), calls1)
           \<and> run_daily_digest db now2 cfg2 (with_in_memory_registry Q2) (st1, x1)
               = Inr ((None, [already_published key rec1]), (st1, x1), [Call_registry_get key])
           \<and> count_publish (calls1 @ [Call_registry_get key]) = 1))"
proof (intro conjI impI)
  assume "compute_window db now cfg = Inr (key, ws, we)"
    and "registry_get P key w = ((Some rec, reg_err), w1)"
    and "pr_published rec"
  then show "run_daily_digest db now cfg P w
      = Inr ((None, reg_err @ [already_published key rec]), w1, [Call_registry_get key])"
    by (rule run_already_published)
next
  show "err_code (already_published key rec) = str ''ALREADY_PUBLISHED''"
    by (simp add: already_published_def)
next
  show "err_severity (already_published key rec) = SEV_WARNING"
    by (simp add: already_published_def)
next
  assume "compute_window db now1 cfg1 = Inr (key, ws1, we1)"
    and "compute_window db now2 cfg2 = Inr (key, ws2, we2)"
    and "\<not> is_published (st key)"
  then show "\<exists>r1 st1 x1 calls1 rec1.
           run_daily_digest db now1 cfg1 (with_in_memory_registry Q1) (st, x)
             = Inr (r1, (st1, x1), calls1)
           \<and> run_daily_digest db now2 cfg2 (with_in_memory_registry Q2) (st1, x1)
               = Inr ((None, [already_published key rec1]), (st1, x1), [Call_registry_get key])
           \<and> count_publish (calls1 @ [Call_registry_get key]) = 1"
    by (rule run_twice_in_memory)
qed

theorem run_daily_digest_idempotent_witness:
  "compute_window tzdata (utc_datetime 739705 12) default_config
     = Inr (739705, utc_datetime 739703 5, utc_datetime 739705 5)
   \<and> pr_published published_record
   \<and> run_daily_digest tzdata (utc_datetime 739705 12) default_config
       (with_in_memory_registry quiet_ports) (Map.empty(739705 \<mapsto> published_record), ())
       = Inr ((None, [already_published 739705 published_record]),
              (Map.empty(739705 \<mapsto> published_record), ()), [Call_registry_get 739705])
   \<and> compute_window tzdata (utc_datetime 739705 6) default_config
       = Inr (739705, utc_datetime 739703 5, utc_datetime 739705 5)
   \<and> \<not> is_published ((Map.empty :: store) 739705)
   \<and> (\<exists>r1 st1 x1 calls1 rec1.
         run_daily_digest tzdata (utc_datetime 739705 6) default_config
           (with_in_memory_registry quiet_ports) (Map.empty, ())
           = Inr (r1, (st1, x1), calls1)
         \<and> run_daily_digest tzdata (utc_datetime 739705 12) default_config
             (with_in_memory_registry quiet_ports) (st1, x1)
             = Inr ((None, [already_published 739705 rec1]), (st1, x1), [Call_registry_get 739705])
         \<and> count_publish (calls1 @ [Call_registry_get 739705]) = 1)"
proof -
  let ?st = "Map.empty(739705 \<mapsto> published_record) :: store"
  have pub: "pr_published published_record"
    by (simp add: published_record_def)
  have get: "registry_get (with_in_memory_registry quiet_ports) 739705 (?st, ())
      = ((Some published_record, []), (?st, ()))"
    by (simp add: registry_get_in_memory)
  have fresh: "\<not> is_published ((Map.empty :: store) 739705)"
    by (simp add: is_published_def)
  note inst = run_daily_digest_idempotent
    [of tzdata "utc_datetime 739705 12" default_config 739705 "utc_datetime 739703 5"
      "utc_datetime 739705 5" "with_in_memory_registry quiet_ports" "(?st, ())" published_record
      "[]" "(?st, ())" "utc_datetime 739705 6" default_config "utc_datetime 739703 5"
      "utc_datetime 739705 5" "utc_datetime 739705 12" default_config "utc_datetime 739703 5"
      "utc_datetime 739705 5" Map.empty quiet_ports "()" quiet_ports]
  from inst window_2026_03_30_12 window_2026_03_30_06 pub get fresh show ?thesis
    by simp
qed

text \<open>
  C4. When the registry holds no published record for the run-date key and the loader
  returns no match, the run returns a post without items, makes one publish call, with the
  rendering of that empty post, and then one \<open>set_published\<close> call, with a record of the
  run-date key marked published.
\<close>

theorem run_daily_digest_no_matches:
  assumes "compute_window db now cfg = Inr (key, ws, we)"
    and "registry_get P key w = ((rec, reg_err), w1)"
    and "\<not> is_published rec"
    and "results_loader_load P ws we w1 = (([], player_stats, res_err), w2)"
    and "publisher_publish P
           (render_post \<lparr>p_run_date_msk = key, p_generated_at_utc = now, p_items = [],
                         p_errors = reg_err @ res_err\<rparr>) w2 = ((msg_id, pub_err), w3)"
    and "registry_set_published P
           \<lparr>pr_run_date_msk = key, pr_published = True, pr_tg_message_id = msg_id,
            pr_published_at_utc = None\<rparr> w3 = (set_err, w4)"
  shows "run_daily_digest db now cfg P w =
           Inr ((Some \<lparr>p_run_date_msk = key, p_generated_at_utc = now, p_items = [],
                       p_errors = reg_err @ res_err @ pub_err @ set_err\<rparr>,
                 reg_err @ res_err @ pub_err @ set_err),
                w4,
                [Call_registry_get key, Call_results_load ws we,
                 Call_publish (render_post \<lparr>p_run_date_msk = key, p_generated_at_utc = now,
                                             p_items = [], p_errors = reg_err @ res_err\<rparr>),
                 Call_set_published \<lparr>pr_run_date_msk = key, pr_published = True,
                                     pr_tg_message_id = msg_id, pr_published_at_utc = None\<rparr>])"
  using assms
  by (simp add: run_not_published [OF assms(1-3)] load_and_publish_def publish_no_matches_def Let_def)

theorem run_daily_digest_no_matches_witness:
  "compute_window tzdata (utc_datetime 739705 6) default_config
     = Inr (739705, utc_datetime 739703 5, utc_datetime 739705 5)
   \<and> registry_get quiet_ports 739705 () = ((None, []), ())
   \<and> \<not> is_published None
   \<and> results_loader_load quiet_ports (utc_datetime 739703 5) (utc_datetime 739705 5) ()
       = (([], [], []), ())
   \<and> run_daily_digest tzdata (utc_datetime 739705 6) default_config quiet_ports ()
       = Inr ((Some post_empty, []), (),
              [Call_registry_get 739705,
               Call_results_load (utc_datetime 739703 5) (utc_datetime 739705 5),
               Call_publish (render_post post_empty),
               Call_set_published published_record])"
proof -
  have get: "registry_get quiet_ports 739705 () = ((None, []), ())"
    by (simp add: quiet_ports_def)
  have fresh: "\<not> is_published None"
    by (simp add: is_published_def)
  have load: "results_loader_load quiet_ports (utc_datetime 739703 5) (utc_datetime 739705 5) ()
      = (([], [], []), ())"
    by (simp add: quiet_ports_def)
  have pub: "publisher_publish quiet_ports
      (render_post \<lparr>p_run_date_msk = 739705, p_generated_at_utc = utc_datetime 739705 6,
                    p_items = [], p_errors = [] @ []\<rparr>) ()
      = ((Some (str ''mock_message_id''), []), ())"
    by (simp add: quiet_ports_def)
  have setp: "registry_set_published quiet_ports
      \<lparr>pr_run_date_msk = 739705, pr_published = True,
       pr_tg_message_id = Some (str ''mock_message_id''), pr_published_at_utc = None\<rparr> ()
      = ([], ())"
    by (simp add: quiet_ports_def)
  from run_daily_digest_no_matches [OF window_2026_03_30_06 get fresh load pub setp]
  have "run_daily_digest tzdata (utc_datetime 739705 6) default_config quiet_ports ()
       = Inr ((Some post_empty, []), (),
              [Call_registry_get 739705,
               Call_results_load (utc_datetime 739703 5) (utc_datetime 739705 5),
               Call_publish (render_post post_empty),
               Call_set_published published_record])"
    by (simp add: post_empty_def published_record_def)
  with window_2026_03_30_06 get fresh load show ?thesis by simp
qed

lemma ranked_example_m1:
  "score_matches [example_m1] [] [] =
     [\<lparr>rm_match = example_m1,
       rm_rank = \<lparr>ms_match_id = str ''m1'', ms_score = 0.34,
                  ms_contributions =
                    [\<lparr>sc_reason = str ''overtime_bonus'', sc_weight = 0.2, sc_entity_type = None,
                      sc_entity_id = None\<rparr>,
                     \<lparr>sc_reason = str ''total_goals_bonus'', sc_weight = 0.14, sc_entity_type = None,
                      sc_entity_id = None\<rparr>]\<rparr>\<rparr>]"
  by (simp add: scoring_defs example_m1_def Let_def)

text \<open>
  C2. The post returned is meant to carry every error of the run, those embedded in the
  video results of surviving matches among them. In the run below the only match, \<open>m1\<close>,
  survives, and the video source returns for its highlights a result with status error
  that embeds \<open>vk_timeout\<close>. The post built and published lists \<open>vk_timeout\<close>; the post
  returned, and the error list returned with it, are empty: \<open>build_post_public\<close> adds the
  embedded errors to its own copy of the list, and the orchestrator ends by replacing the
  post's errors with its list, which never received them.
\<close>

theorem run_daily_digest_loses_video_error:
  "run_daily_digest tzdata (utc_datetime 739705 6) default_config video_error_ports ()
     = Inr ((Some (built_post_m1\<lparr>p_errors := []\<rparr>), []), (),
            [Call_registry_get 739705,
             Call_results_load (utc_datetime 739703 5) (utc_datetime 739705 5),
             Call_rules_load,
             Call_video_load [str ''m1''],
             Call_publish (render_post built_post_m1),
             Call_set_published
               \<lparr>pr_run_date_msk = 739705, pr_published = True,
                pr_tg_message_id = Some (str ''mock_message_id''),
                pr_published_at_utc = Some (utc_datetime 739705 6)\<rparr>])
   \<and> map it_match_id (p_items built_post_m1) = [str ''m1'']
   \<and> v_match_id video_error_m1 = str ''m1''
   \<and> v_status video_error_m1 = VS_ERROR
   \<and> v_error video_error_m1 = Some vk_timeout
   \<and> p_errors built_post_m1 = [vk_timeout]"
proof -
  let ?ranked = "score_matches [example_m1] [] []"
  have surv: "survivors default_config ?ranked = ?ranked"
    by (simp add: ranked_example_m1 survivors_def score_of_def default_config_def)
  have "map (\<lambda>rm. m_match_id (rm_match rm)) ?ranked = [m_match_id example_m1]"
    by (simp add: ranked_example_m1)
  moreover have mid: "m_match_id example_m1 = str ''m1''"
    by (simp add: example_m1_def)
  ultimately have ids: "[str ''m1''] = map (\<lambda>rm. m_match_id (rm_match rm)) (survivors default_config ?ranked)"
    by (simp only: surv)
  have get: "registry_get video_error_ports 739705 () = ((None, []), ())"
    by (simp add: video_error_ports_def quiet_ports_def)
  have fresh: "\<not> is_published None"
    by (simp add: is_published_def)
  have load: "results_loader_load video_error_ports (utc_datetime 739703 5) (utc_datetime 739705 5) ()
      = (([example_m1], [], []), ())"
    by (simp add: video_error_ports_def quiet_ports_def)
  have rules: "rules_loader_load video_error_ports () = (([], []), ())"
    by (simp add: video_error_ports_def quiet_ports_def)
  have video: "video_loader_load_for_matches video_error_ports [str ''m1''] ()
      = (([video_error_m1], []), ())"
    by (simp add: video_error_ports_def quiet_ports_def)
  have post: "built_post_m1 = build_post_public 739705 (utc_datetime 739705 6) ?ranked
      [video_error_m1] default_config ([] @ [] @ [] @ [])"
    by (simp add: built_post_m1_def)
  have pub: "publisher_publish video_error_ports (render_post built_post_m1) ()
      = ((Some (str ''mock_message_id''), []), ())"
    by (simp add: video_error_ports_def quiet_ports_def)
  have setp: "registry_set_published video_error_ports
      \<lparr>pr_run_date_msk = 739705, pr_published = True,
       pr_tg_message_id = Some (str ''mock_message_id''),
       pr_published_at_utc = Some (as_utc (utc_datetime 739705 6))\<rparr> () = ([], ())"
    by (simp add: video_error_ports_def quiet_ports_def)
  have as_utc: "as_utc (utc_datetime 739705 6) = utc_datetime 739705 6"
    by (simp add: as_utc_def utc_datetime_def)
  from run_with_matches [OF window_2026_03_30_06 get fresh load _ rules refl ids video post pub refl setp]
  have run: "run_daily_digest tzdata (utc_datetime 739705 6) default_config video_error_ports ()
     = Inr ((Some (built_post_m1\<lparr>p_errors := []\<rparr>), []), (),
            [Call_registry_get 739705,
             Call_results_load (utc_datetime 739703 5) (utc_datetime 739705 5),
             Call_rules_load,
             Call_video_load [str ''m1''],
             Call_publish (render_post built_post_m1),
             Call_set_published
               \<lparr>pr_run_date_msk = 739705, pr_published = True,
                pr_tg_message_id = Some (str ''mock_message_id''),
                pr_published_at_utc = Some (utc_datetime 739705 6)\<rparr>])"
    by (simp add: as_utc)
  have built: "built_post_m1 =
      \<lparr>p_run_date_msk = 739705, p_generated_at_utc = as_utc (utc_datetime 739705 6),
       p_items = map (public_item [video_error_m1]) ?ranked,
       p_errors = concat (map (video_errors [video_error_m1]) ?ranked)\<rparr>"
    by (simp add: built_post_m1_def build_post_public_eq surv)
  have items: "map it_match_id (p_items built_post_m1) = [m_match_id example_m1]"
    by (simp add: built ranked_example_m1 public_item_def)
  have "p_errors built_post_m1
      = embedded_error (last_video [video_error_m1] (m_match_id example_m1) HIGHLIGHTS)
        @ embedded_error (last_video [video_error_m1] (m_match_id example_m1) FULL)"
    by (simp add: built ranked_example_m1 video_errors_def)
  then have errs: "p_errors built_post_m1 = [vk_timeout]"
    by (simp add: mid last_video_def embedded_error_def video_error_m1_def)
  from run items errs mid show ?thesis
    by (simp add: video_error_m1_def)
qed

end
